theory Spec2Isabelle
  imports Complex_Main "HOL-Library.Char_ord" "HOL-Library.List_Lexorder"
begin

section \<open>Logging (log.py)\<close>

text \<open>
  \<^verbatim>\<open>log_message(level, message)\<close> and the \<^verbatim>\<open>logging\<close> calls append to the log.
  A log entry is its level and its message; a message built by an f-string is a
  constructor holding the values the f-string prints.
\<close>

datatype level = Info | Error

datatype message =
    Text string
  | MissingRequiredFound "string list"
  | ErrorTransforming
  | AvailableColumns "string list"
  | ErrorAggregating "string set"
  | ErrorMovingToEdw
  | AggregatedSavedTo "string option"

type_synonym log = "(level \<times> message) list"

section \<open>The warehouse: staging table, enterprise table, merge (load.py)\<close>

text \<open>
  Both tables of \<^verbatim>\<open>create_schemas_and_tables\<close> have the columns
  \<^verbatim>\<open>RecordID SERIAL PRIMARY KEY, date, open, high, low, close, volume, symbol\<close>,
  the checks \<^verbatim>\<open>open >= 0\<close> ... \<^verbatim>\<open>volume >= 0\<close>, \<^verbatim>\<open>symbol VARCHAR(10)\<close> and
  \<^verbatim>\<open>UNIQUE (symbol, date)\<close>. A table is the list of its rows in scan order; a row is its
  \<^verbatim>\<open>RecordID\<close> paired with the seven data columns. A date is the number YYYYMMDD, whose
  order is the order of the calendar. FLOAT columns are read as real numbers: the merge
  only copies them.
\<close>

type_synonym iso_date = nat

record stock_row =
  c_date :: iso_date
  c_open :: real
  c_high :: real
  c_low :: real
  c_close :: real
  c_volume :: int
  c_symbol :: string

type_synonym db_table = "(nat \<times> stock_row) list"

text \<open>
  The database: the two tables and the last value handed out by the sequence behind
  \<^verbatim>\<open>edw.stock_data.RecordID\<close>.
\<close>

record database =
  stg :: db_table
  edw :: db_table
  edw_seq :: nat

definition row_key :: "stock_row \<Rightarrow> string \<times> iso_date" where
  "row_key r = (c_symbol r, c_date r)"

definition table_keys :: "db_table \<Rightarrow> (string \<times> iso_date) list" where
  "table_keys t = map (\<lambda>(i, r). row_key r) t"

text \<open>The column constraints of the enterprise table, checked for every proposed row.\<close>

definition row_checks :: "stock_row \<Rightarrow> bool" where
  "row_checks r = (0 \<le> c_open r \<and> 0 \<le> c_high r \<and> 0 \<le> c_low r \<and> 0 \<le> c_close r
     \<and> 0 \<le> c_volume r \<and> length (c_symbol r) \<le> 10)"

text \<open>
  \<^verbatim>\<open>ON CONFLICT (symbol, date) DO UPDATE SET open = EXCLUDED.open, ...\<close>: the row of the
  enterprise table with the proposed row's key takes its five value columns; its
  \<^verbatim>\<open>RecordID\<close>, date and symbol stay.
\<close>

definition do_update :: "stock_row \<Rightarrow> nat \<times> stock_row \<Rightarrow> nat \<times> stock_row" where
  "do_update ex ir = (case ir of (i, r) \<Rightarrow>
     if row_key r = row_key ex
     then (i, r\<lparr>c_open := c_open ex, c_high := c_high ex, c_low := c_low ex,
                 c_close := c_close ex, c_volume := c_volume ex\<rparr>)
     else (i, r))"

text \<open>
  One proposed row of the \<^verbatim>\<open>INSERT ... SELECT\<close>. The default of \<^verbatim>\<open>RecordID\<close> is taken
  from the sequence before the conflict is looked for, so the sequence advances for
  every proposed row.
\<close>

definition upsert :: "stock_row \<Rightarrow> nat \<times> db_table \<Rightarrow> nat \<times> db_table" where
  "upsert ex st = (case st of (sq, t) \<Rightarrow>
     if row_key ex \<in> set (table_keys t) then (Suc sq, map (do_update ex) t)
     else (Suc sq, t @ [(Suc sq, ex)]))"

definition insert_select :: "stock_row list \<Rightarrow> nat \<times> db_table \<Rightarrow> nat \<times> db_table" where
  "insert_select proposed st = fold upsert proposed st"

text \<open>A table holds a row when the key is there and every row of that key equals it.\<close>

definition holds_row :: "db_table \<Rightarrow> stock_row \<Rightarrow> bool" where
  "holds_row t ex = (row_key ex \<in> set (table_keys t) \<and>
     list_all (\<lambda>(i, r). row_key r \<noteq> row_key ex \<or> r = ex) t)"

text \<open>
  \<^verbatim>\<open>move_data_to_edw\<close>: the statement and its commit. The statement raises when a
  proposed row breaks a column check or when two proposed rows have the same
  (symbol, date) (an \<^verbatim>\<open>ON CONFLICT DO UPDATE\<close> cannot touch a row twice); the
  \<^verbatim>\<open>except\<close> branch logs, nothing is committed and the connection is closed, which
  leaves the database as it was.
\<close>

definition move_data_to_edw :: "database \<Rightarrow> log \<times> database" where
  "move_data_to_edw db =
     (let proposed = map snd (stg db) in
      if list_all row_checks proposed \<and> distinct (map row_key proposed)
      then (case insert_select proposed (edw_seq db, edw db) of
              (sq, t) \<Rightarrow> ([(Info, Text ''Data moved to EDW table successfully.'')],
                         db\<lparr>edw := t, edw_seq := sq\<rparr>))
      else ([(Error, ErrorMovingToEdw)], db))"

text \<open>
  \<^verbatim>\<open>load_data_to_postgres\<close>. The file system is a map from a path to the size of the
  file there. The function raises \<^verbatim>\<open>FileNotFoundError\<close> when
  \<^verbatim>\<open>not os.path.exists(input_file) or os.path.getsize(input_file) == 0\<close>; otherwise it
  sets two local variables to \<^verbatim>\<open>None\<close> and returns: the database is not touched.
\<close>

datatype exception = FileNotFoundError | TypeError

type_synonym file_system = "string \<rightharpoonup> nat"

definition load_data_to_postgres :: "file_system \<Rightarrow> string \<Rightarrow> database \<Rightarrow> exception + database" where
  "load_data_to_postgres fs input_file db =
     (if fs input_file = None \<or> fs input_file = Some 0 then Inl FileNotFoundError
      else Inr db)"

section \<open>Data frames\<close>

text \<open>
  A pandas DataFrame is the list of its column labels and the list of its rows. A row
  is a record of the cells the pipeline reads; a cell is meaningful when its label is
  among the columns. \<^verbatim>\<open>pd.DataFrame()\<close> has neither columns nor rows, and
  \<^verbatim>\<open>df.empty\<close> holds when either list is empty. A missing cell (the NaN of pandas)
  is \<open>None\<close>. A price or a volume is a real number; a return, the result of a division,
  is a real number or an infinity. Arithmetic is that of the real numbers, without
  rounding; a zero is the positive zero of the floats.
\<close>

datatype float = Finite real | PlusInf | MinusInf

record 'r frame =
  columns :: "string list"
  rows :: "'r list"

definition empty_frame :: "'r frame" where
  "empty_frame = \<lparr>columns = [], rows = []\<rparr>"

definition frame_empty :: "'r frame \<Rightarrow> bool" where
  "frame_empty df = (columns df = [] \<or> rows df = [])"

definition upper_char :: "char \<Rightarrow> char" where
  "upper_char c = (if CHR ''a'' \<le> c \<and> c \<le> CHR ''z'' then char_of (of_char c - (32::nat)) else c)"

definition lower_char :: "char \<Rightarrow> char" where
  "lower_char c = (if CHR ''A'' \<le> c \<and> c \<le> CHR ''Z'' then char_of (of_char c + (32::nat)) else c)"

text \<open>\<^verbatim>\<open>str.upper()\<close> and \<^verbatim>\<open>str.lower()\<close>, on ASCII text.\<close>

definition str_upper :: "string \<Rightarrow> string" where
  "str_upper s = map upper_char s"

definition str_lower :: "string \<Rightarrow> string" where
  "str_lower s = map lower_char s"

section \<open>The Normalizer and the Return Calculator (transform.py)\<close>

text \<open>
  A raw cell is classified by what pandas makes of its text: a date cell is text that
  \<^verbatim>\<open>pd.to_datetime\<close> parses to a day, or text it rejects; a numeric cell is text that
  \<^verbatim>\<open>pd.to_numeric\<close> parses to a number, or text it cannot parse.
\<close>

datatype raw_date = DateText iso_date | DateJunk

datatype raw_num = NumText real | NumJunk

record raw_row =
  raw_Date :: raw_date
  raw_OpenPrice :: raw_num
  raw_High :: raw_num
  raw_Low :: raw_num
  raw_ClosePrice :: raw_num
  raw_Volume :: raw_num
  raw_Symbol :: string

record row =
  Date :: iso_date
  OpenPrice :: "real option"
  High :: "real option"
  Low :: "real option"
  ClosePrice :: "real option"
  Volume :: "real option"
  Symbol :: string
  DailyReturn :: "float option"

definition expected_columns :: "string list" where
  "expected_columns =
     [''Date'', ''OpenPrice'', ''High'', ''Low'', ''ClosePrice'', ''Volume'', ''Symbol'']"

text \<open>
  \<^verbatim>\<open>pd.to_datetime(df["Date"])\<close> converts the whole column and raises (\<open>None\<close>) when
  one cell does not parse; \<^verbatim>\<open>.dt.strftime("%Y-%m-%d")\<close> then writes each day in ISO form.
\<close>

fun to_datetime :: "raw_date list \<Rightarrow> iso_date list option" where
  "to_datetime [] = Some []"
| "to_datetime (DateText d # ds) = map_option ((#) d) (to_datetime ds)"
| "to_datetime (DateJunk # ds) = None"

text \<open>\<^verbatim>\<open>pd.to_numeric(..., errors="coerce")\<close>: a cell that does not parse becomes NaN.\<close>

fun to_numeric :: "raw_num \<Rightarrow> real option" where
  "to_numeric (NumText x) = Some x"
| "to_numeric NumJunk = None"

text \<open>Lines 57 to 63 on one row, given its converted date.\<close>

definition standardize :: "iso_date \<Rightarrow> raw_row \<Rightarrow> row" where
  "standardize d r =
     \<lparr>Date = d,
      OpenPrice = to_numeric (raw_OpenPrice r),
      High = to_numeric (raw_High r),
      Low = to_numeric (raw_Low r),
      ClosePrice = to_numeric (raw_ClosePrice r),
      Volume = to_numeric (raw_Volume r),
      Symbol = str_upper (raw_Symbol r),
      DailyReturn = None\<rparr>"

text \<open>The day a date cell parses to, and a raw row after lines 57 to 63.\<close>

fun day_of :: "raw_date \<Rightarrow> iso_date" where
  "day_of (DateText d) = d"
| "day_of DateJunk = 0"

definition normalized :: "raw_row \<Rightarrow> row" where
  "normalized r = standardize (day_of (raw_Date r)) r"

text \<open>
  \<^verbatim>\<open>df.groupby("Symbol")["ClosePrice"].pct_change()\<close>. Within one group the series is
  forward-filled when \<open>pad\<close> holds (the default of pandas up to 2.x; later versions do not
  fill), shifted by one row, and the change is \<open>filled / shifted - 1\<close>. A missing operand
  gives a missing result. Over a zero divisor, 0 / 0 is NaN and the result is missing;
  a positive close gives plus infinity and a negative one minus infinity.
\<close>

fun ffill :: "real option \<Rightarrow> real option list \<Rightarrow> real option list" where
  "ffill prev [] = []"
| "ffill prev (None # xs) = prev # ffill prev xs"
| "ffill prev (Some x # xs) = Some x # ffill (Some x) xs"

definition shift1 :: "real option list \<Rightarrow> real option list" where
  "shift1 xs = (if xs = [] then [] else None # butlast xs)"

fun change :: "real option \<Rightarrow> real option \<Rightarrow> float option" where
  "change (Some c) (Some p) =
     (if p \<noteq> 0 then Some (Finite (c / p - 1))
      else if c = 0 then None
      else if 0 < c then Some PlusInf
      else Some MinusInf)"
| "change _ _ = None"

definition pct_change :: "bool \<Rightarrow> real option list \<Rightarrow> float option list" where
  "pct_change pad xs =
     (let filled = (if pad then ffill None xs else xs) in map2 change filled (shift1 filled))"

text \<open>
  The result of a grouped operation is aligned with the rows of the frame: each row
  takes the next value of the series of its own group.
\<close>

fun align :: "(string \<Rightarrow> float option list) \<Rightarrow> row list \<Rightarrow> row list" where
  "align g [] = []"
| "align g (r # rs) =
     (case g (Symbol r) of
        [] \<Rightarrow> r\<lparr>DailyReturn := None\<rparr> # align g rs
      | v # vs \<Rightarrow> r\<lparr>DailyReturn := v\<rparr> # align (g(Symbol r := vs)) rs)"

definition groupby_pct_change :: "bool \<Rightarrow> row list \<Rightarrow> row list" where
  "groupby_pct_change pad rs =
     align (\<lambda>s. pct_change pad (map ClosePrice (filter (\<lambda>r. Symbol r = s) rs))) rs"

text \<open>
  \<^verbatim>\<open>transform_data\<close>. It returns the empty frame when an expected column is absent
  (compared by \<^verbatim>\<open>col in df.columns\<close>, the exact label) and when any statement raises;
  otherwise the frame sorted by \<^verbatim>\<open>Date\<close> with the new column \<^verbatim>\<open>DailyReturn\<close>.
  \<^verbatim>\<open>sort_values(by=["Date"])\<close> runs the default quicksort, which is not stable: the
  order it leaves among rows of equal date is not fixed by the code. That order is given
  by \<open>tie\<close>, the rank of a row among the rows of its date (rows of equal date and rank
  keep their order); every frame that is a rearrangement of the rows in date order
  arises from some \<open>tie\<close>.
\<close>

definition sort_values :: "(row \<Rightarrow> nat) \<Rightarrow> row list \<Rightarrow> row list" where
  "sort_values tie rs = sort_key Date (sort_key tie rs)"

definition transform_data :: "bool \<Rightarrow> (row \<Rightarrow> nat) \<Rightarrow> raw_row frame \<Rightarrow> log \<times> row frame" where
  "transform_data pad tie df =
     (if \<not> list_all (\<lambda>col. col \<in> set (columns df)) expected_columns
      then ([(Error, MissingRequiredFound (columns df))], empty_frame)
      else case to_datetime (map raw_Date (rows df)) of
        None \<Rightarrow> ([(Error, ErrorTransforming)], empty_frame)
      | Some ds \<Rightarrow>
          ([(Info, Text ''Data transformed to standard format, including DailyReturn'')],
           \<lparr>columns = columns df @ (if ''DailyReturn'' \<in> set (columns df) then [] else [''DailyReturn'']),
            rows = groupby_pct_change pad (sort_values tie (map2 standardize ds (rows df)))\<rparr>))"

section \<open>The Aggregator (aggregated.py)\<close>

definition required_columns :: "string set" where
  "required_columns = {''date'', ''closeprice'', ''volume'', ''dailyreturn'', ''symbol''}"

text \<open>\<^verbatim>\<open>fillna(v)\<close> on one cell.\<close>

fun fillna :: "real \<Rightarrow> float option \<Rightarrow> float option" where
  "fillna v None = Some (Finite v)"
| "fillna v (Some x) = Some x"

text \<open>The reductions of pandas skip missing cells.\<close>

fun numeric :: "real option list \<Rightarrow> real list" where
  "numeric [] = []"
| "numeric (None # xs) = numeric xs"
| "numeric (Some x # xs) = x # numeric xs"

definition mean :: "real list \<Rightarrow> real" where
  "mean ys = sum_list ys / real (length ys)"

text \<open>The sample standard deviation (\<^verbatim>\<open>ddof=1\<close>) of at least two numbers.\<close>

definition sample_std :: "real list \<Rightarrow> real" where
  "sample_std ys = sqrt (sum_list (map (\<lambda>y. (y - mean ys)\<^sup>2) ys) / real (length ys - 1))"

definition agg_mean :: "real option list \<Rightarrow> real option" where
  "agg_mean xs = (let ys = numeric xs in if ys = [] then None else Some (mean ys))"

definition agg_sum :: "real option list \<Rightarrow> real" where
  "agg_sum xs = sum_list (numeric xs)"

text \<open>
  The returns of a group, which may hold infinities. The cells that are not missing, and
  the real numbers among them.
\<close>

fun present :: "float option list \<Rightarrow> float list" where
  "present [] = []"
| "present (None # xs) = present xs"
| "present (Some x # xs) = x # present xs"

fun finite_part :: "float list \<Rightarrow> real list" where
  "finite_part [] = []"
| "finite_part (Finite x # ys) = x # finite_part ys"
| "finite_part (y # ys) = finite_part ys"

text \<open>
  The mean is the sum over the count: an infinity makes the sum that infinity, and both
  infinities make it NaN.
\<close>

definition agg_mean_float :: "float option list \<Rightarrow> float option" where
  "agg_mean_float xs =
     (let ys = present xs in
      if ys = [] then None
      else if PlusInf \<in> set ys \<and> MinusInf \<in> set ys then None
      else if PlusInf \<in> set ys then Some PlusInf
      else if MinusInf \<in> set ys then Some MinusInf
      else Some (Finite (mean (finite_part ys))))"

text \<open>
  The standard deviation needs two cells that are not missing. An infinite cell makes
  the mean infinite or NaN and its own deviation from the mean NaN, so the result is NaN.
\<close>

definition agg_std :: "float option list \<Rightarrow> real option" where
  "agg_std xs =
     (let ys = present xs in
      if length ys < 2 \<or> PlusInf \<in> set ys \<or> MinusInf \<in> set ys then None
      else Some (sample_std (finite_part ys)))"

text \<open>
  \<^verbatim>\<open>rolling(window=w).mean()\<close>: the value at a row is the mean of the \<open>w\<close> cells ending
  there, and missing when fewer than \<open>w\<close> cells end there or one of them is missing.
\<close>

definition window_mean :: "nat \<Rightarrow> real option list \<Rightarrow> real option" where
  "window_mean w xs =
     (let win = drop (length xs - w) xs in
      if w \<le> length xs \<and> list_all (\<lambda>x. x \<noteq> None) win then Some (sum_list (numeric win) / real w)
      else None)"

definition rolling_mean :: "nat \<Rightarrow> real option list \<Rightarrow> real option list" where
  "rolling_mean w xs = map (\<lambda>i. window_mean w (take (Suc i) xs)) [0..<length xs]"

text \<open>
  \<^verbatim>\<open>group['closeprice'].rolling(window=w).mean().iloc[-1] if len(group) >= w else None\<close>
\<close>

definition moving_avg :: "nat \<Rightarrow> row list \<Rightarrow> real option" where
  "moving_avg w grp =
     (if w \<le> length grp then last (rolling_mean w (map ClosePrice grp)) else None)"

record summary =
  symbol :: string
  averagedailyprice :: "real option"
  totalvolume :: "real option"
  dailyreturn :: "float option"
  volatilityindex :: "real option"
  movingavg5day :: "real option"
  movingavg10day :: "real option"
  maxdate :: "iso_date option"

definition summary_columns :: "string list" where
  "summary_columns = [''symbol'', ''averagedailyprice'', ''totalvolume'', ''dailyreturn'',
     ''volatilityindex'', ''movingavg5day'', ''movingavg10day'', ''maxdate'']"

text \<open>\<^verbatim>\<open>groupby('symbol')\<close>: the groups in the order of their keys, each with its rows in frame order.\<close>

definition group_keys :: "row list \<Rightarrow> string list" where
  "group_keys rs = sort (remdups (map Symbol rs))"

definition group_of :: "row list \<Rightarrow> string \<Rightarrow> row list" where
  "group_of rs s = filter (\<lambda>r. Symbol r = s) rs"

definition per_group :: "row list \<Rightarrow> (row list \<Rightarrow> 'a) \<Rightarrow> (string \<times> 'a) list" where
  "per_group rs f = map (\<lambda>s. (s, f (group_of rs s))) (group_keys rs)"

text \<open>The column of a right-hand table in \<^verbatim>\<open>merge(..., on='symbol', how='left')\<close>.\<close>

definition left_join :: "(string \<times> 'a option) list \<Rightarrow> string \<Rightarrow> 'a option" where
  "left_join t s = (case map_of t s of None \<Rightarrow> None | Some v \<Rightarrow> v)"

text \<open>The four grouped tables and their merge.\<close>

definition summarize :: "row list \<Rightarrow> summary list" where
  "summarize rs =
     (let max_date = per_group rs (\<lambda>g. if g = [] then None else Some (Max (set (map Date g))));
          company_performance_summary = per_group rs (\<lambda>g.
            (agg_mean (map ClosePrice g), agg_sum (map Volume g), agg_mean_float (map DailyReturn g)));
          volatility_index = per_group rs (\<lambda>g. agg_std (map DailyReturn g));
          moving_averages = per_group rs (\<lambda>g. (moving_avg 5 g, moving_avg 10 g))
      in map (\<lambda>(s, (avg, vol, ret)).
           \<lparr>symbol = s,
            averagedailyprice = avg,
            totalvolume = Some vol,
            dailyreturn = ret,
            volatilityindex = left_join volatility_index s,
            movingavg5day = left_join (map (\<lambda>(k, v). (k, fst v)) moving_averages) s,
            movingavg10day = left_join (map (\<lambda>(k, v). (k, snd v)) moving_averages) s,
            maxdate = left_join max_date s\<rparr>) company_performance_summary)"

text \<open>
  \<^verbatim>\<open>aggregate_data\<close>. The result is the log, the caller's frame as the call leaves it,
  and the returned frame. The labels are lowercased before the required columns are
  looked for; the \<^verbatim>\<open>ValueError\<close> for a missing column is raised before
  \<^verbatim>\<open>dailyreturn\<close> is filled, and the \<^verbatim>\<open>except\<close> branch returns \<^verbatim>\<open>pd.DataFrame()\<close>.
\<close>

definition aggregate_data :: "row frame \<Rightarrow> log \<times> row frame \<times> summary frame" where
  "aggregate_data transformed_data =
     (let df1 = transformed_data\<lparr>columns := map str_lower (columns transformed_data)\<rparr>;
          missing_columns = required_columns - set (columns df1)
      in if missing_columns \<noteq> {}
         then ([(Info, AvailableColumns (columns transformed_data)),
                (Error, ErrorAggregating missing_columns)], df1, empty_frame)
         else
           let df2 = df1\<lparr>rows := map (\<lambda>r. r\<lparr>DailyReturn := fillna 0 (DailyReturn r)\<rparr>) (rows df1)\<rparr>
           in ([(Info, AvailableColumns (columns transformed_data)),
                (Info, Text ''Data aggregation completed successfully.'')],
               df2, \<lparr>columns = summary_columns, rows = summarize (rows df2)\<rparr>))"

text \<open>The summary of one symbol, the cells of its row in the merged table.\<close>

definition summary_of :: "row list \<Rightarrow> string \<Rightarrow> summary" where
  "summary_of rs s = (let g = group_of rs s in
     \<lparr>symbol = s,
      averagedailyprice = agg_mean (map ClosePrice g),
      totalvolume = Some (agg_sum (map Volume g)),
      dailyreturn = agg_mean_float (map DailyReturn g),
      volatilityindex = agg_std (map DailyReturn g),
      movingavg5day = moving_avg 5 g,
      movingavg10day = moving_avg 10 g,
      maxdate = (if g = [] then None else Some (Max (set (map Date g))))\<rparr>)"

text \<open>
  A row after \<^verbatim>\<open>fillna(0)\<close> on \<^verbatim>\<open>dailyreturn\<close>; its return as a real number, with
  missing read as 0; its return after the fill; and whether its return is infinite.
\<close>

definition filled :: "row \<Rightarrow> row" where
  "filled r = r\<lparr>DailyReturn := fillna 0 (DailyReturn r)\<rparr>"

definition return_or_zero :: "row \<Rightarrow> real" where
  "return_or_zero r = (case DailyReturn r of Some (Finite x) \<Rightarrow> x | _ \<Rightarrow> 0)"

definition filled_value :: "row \<Rightarrow> float" where
  "filled_value r = (case DailyReturn r of None \<Rightarrow> Finite 0 | Some v \<Rightarrow> v)"

definition infinite_return :: "row \<Rightarrow> bool" where
  "infinite_return r = (DailyReturn r = Some PlusInf \<or> DailyReturn r = Some MinusInf)"

text \<open>
  The mean of the close prices of the last \<open>w\<close> rows of a group, when the group has
  \<open>w\<close> rows and none of these closes is missing.
\<close>

definition last_rows_mean :: "nat \<Rightarrow> row list \<Rightarrow> real option" where
  "last_rows_mean w g =
     (let lastw = drop (length g - w) g in
      if w \<le> length g \<and> None \<notin> ClosePrice ` set lastw
      then Some (sum_list (map (\<lambda>r. the (ClosePrice r)) lastw) / real w)
      else None)"

section \<open>The pipeline driver (main2.py)\<close>

text \<open>
  A run of \<^verbatim>\<open>main\<close> is the sequence of its events: the stage functions it calls and the
  entries it logs. What the run does not decide is given by its environment: the frame
  \<^verbatim>\<open>extract_data\<close> returns, the path \<^verbatim>\<open>save_with_timestamp\<close> returns for a prefix
  (\<open>None\<close> when the write fails), the file system that \<^verbatim>\<open>load_data_to_postgres\<close>
  looks at, the database, whether pandas forward-fills in \<^verbatim>\<open>pct_change\<close>, and the
  order its sort leaves among rows of equal date.
\<close>

datatype action =
    CreateSchemasAndTables
  | EnsureDirectoryExists string
  | ExtractData
  | SaveWithTimestamp string
  | TransformData
  | LoadDataToPostgres
  | MoveDataToEdw
  | AggregateData

datatype event = Call action | Logged level message

datatype outcome = Returned | Raised exception

record environment =
  extracted :: "raw_row frame"
  saved_as :: "string \<Rightarrow> string option"
  files :: file_system
  warehouse :: database
  pads :: bool
  ties :: "row \<Rightarrow> nat"

record run =
  trace :: "event list"
  final_db :: database
  outcome :: outcome

definition logged :: "log \<Rightarrow> event list" where
  "logged l = map (\<lambda>(lv, m). Logged lv m) l"

definition main_aggregate :: "environment \<Rightarrow> row frame \<Rightarrow> database \<Rightarrow> event list \<Rightarrow> run" where
  "main_aggregate env transformed_data db tr =
     (case aggregate_data transformed_data of (lg, df', aggregated_data) \<Rightarrow>
        let tr1 = tr @ [Logged Info (Text ''Starting aggregation phase''), Call AggregateData] @ logged lg;
            tr2 = (if \<not> frame_empty aggregated_data
                   then tr1 @ [Call (SaveWithTimestamp ''aggregated_data''),
                               Logged Info (AggregatedSavedTo (saved_as env ''aggregated_data''))]
                   else tr1 @ [Logged Error (Text ''Aggregation failed. No aggregated data produced.'')])
        in \<lparr>trace = tr2 @ [Logged Info (Text ''ETL pipeline completed successfully.''),
                            Logged Info (Text ''ETL process completed'')],
            final_db = db, outcome = Returned\<rparr>)"

definition main_load :: "environment \<Rightarrow> row frame \<Rightarrow> event list \<Rightarrow> run" where
  "main_load env transformed_data tr =
     (let tr1 = tr @ [Call (SaveWithTimestamp ''transformed_data''),
                      Logged Info (Text ''Starting load phase''), Call LoadDataToPostgres]
      in case saved_as env ''transformed_data'' of
           None \<Rightarrow> \<lparr>trace = tr1, final_db = warehouse env, outcome = Raised TypeError\<rparr>
         | Some transformed_file \<Rightarrow>
             (case load_data_to_postgres (files env) transformed_file (warehouse env) of
                Inl e \<Rightarrow> \<lparr>trace = tr1, final_db = warehouse env, outcome = Raised e\<rparr>
              | Inr db \<Rightarrow>
                  (case move_data_to_edw db of (lg, db') \<Rightarrow>
                     main_aggregate env transformed_data db'
                       (tr1 @ [Logged Info (Text ''Moving data to EDW''), Call MoveDataToEdw]
                            @ logged lg))))"

definition main :: "environment \<Rightarrow> run" where
  "main env =
     (let tr0 = [Logged Info (Text ''ETL process started''),
                 Logged Info (Text ''Creating schemas and tables''),
                 Call CreateSchemasAndTables,
                 Call (EnsureDirectoryExists ''dataset''),
                 Logged Info (Text ''Starting extraction phase''),
                 Call ExtractData]
      in if \<not> frame_empty (extracted env)
         then
           let tr1 = tr0 @ [Call (SaveWithTimestamp ''extracted_stock_data''),
                            Logged Info (Text ''Starting transformation phase''),
                            Call TransformData];
               (lg, transformed_data) = transform_data (pads env) (ties env) (extracted env)
           in if \<not> frame_empty transformed_data
              then main_load env transformed_data (tr1 @ logged lg)
              else \<lparr>trace = tr1 @ logged lg
                       @ [Logged Error (Text ''Transformation failed. ETL process terminated.''),
                          Logged Info (Text ''ETL process completed'')],
                    final_db = warehouse env, outcome = Returned\<rparr>
         else \<lparr>trace = tr0 @ [Logged Error (Text ''Extraction failed. ETL process terminated.''),
                              Logged Info (Text ''ETL process completed'')],
               final_db = warehouse env, outcome = Returned\<rparr>)"

text \<open>The calls that follow the transformation stage in \<^verbatim>\<open>main\<close>.\<close>

definition after_transform :: "event list" where
  "after_transform = [Call (SaveWithTimestamp ''transformed_data''), Call LoadDataToPostgres,
     Call MoveDataToEdw, Call AggregateData, Call (SaveWithTimestamp ''aggregated_data'')]"

section \<open>Scenarios\<close>

definition aapl_staged :: stock_row where
  "aapl_staged = \<lparr>c_date = 20240102, c_open = 105, c_high = 111, c_low = 104, c_close = 110,
     c_volume = 5000, c_symbol = ''AAPL''\<rparr>"

definition aapl_stored :: stock_row where
  "aapl_stored = \<lparr>c_date = 20240102, c_open = 105, c_high = 109, c_low = 104, c_close = 108,
     c_volume = 4000, c_symbol = ''AAPL''\<rparr>"

definition msft_staged :: stock_row where
  "msft_staged = \<lparr>c_date = 20240102, c_open = 370, c_high = 376, c_low = 369, c_close = 375,
     c_volume = 900, c_symbol = ''MSFT''\<rparr>"

definition upsert_db :: database where
  "upsert_db = \<lparr>stg = [(1, aapl_staged), (2, msft_staged)], edw = [(7, aapl_stored)], edw_seq = 7\<rparr>"

definition transformed_path :: string where
  "transformed_path = ''dataset/transformed_data_20241219_110050.csv''"

text \<open>Two orders among rows of equal date: the order of the input, and a reversed one.\<close>

definition input_order :: "row \<Rightarrow> nat" where
  "input_order r = 0"

definition dearer_first :: "row \<Rightarrow> nat" where
  "dearer_first r = (if ClosePrice r = Some 101 then 0 else 1)"

definition raw_quote :: "string \<Rightarrow> raw_date \<Rightarrow> raw_num \<Rightarrow> raw_row" where
  "raw_quote s d c = \<lparr>raw_Date = d, raw_OpenPrice = NumText 1, raw_High = NumText 1,
     raw_Low = NumText 1, raw_ClosePrice = c, raw_Volume = NumText 10, raw_Symbol = s\<rparr>"

definition two_symbols :: "raw_row frame" where
  "two_symbols = \<lparr>columns = expected_columns,
     rows = [raw_quote ''MSFT'' (DateText 20240101) (NumText 200),
             raw_quote ''aapl'' (DateText 20240101) (NumText 100),
             raw_quote ''MSFT'' (DateText 20240103) (NumText 210),
             raw_quote ''AAPL'' (DateText 20240102) (NumText 110)]\<rparr>"

definition unparsed_close :: "raw_row frame" where
  "unparsed_close = \<lparr>columns = expected_columns,
     rows = [raw_quote ''AAPL'' (DateText 20240101) NumJunk,
             raw_quote ''AAPL'' (DateText 20240102) (NumText 110),
             raw_quote ''MSFT'' (DateText 20240101) (NumText 0),
             raw_quote ''MSFT'' (DateText 20240102) (NumText 0)]\<rparr>"

definition mixed_quality :: "raw_row frame" where
  "mixed_quality = \<lparr>columns = expected_columns,
     rows = [raw_quote ''MSFT'' (DateText 20240101) NumJunk,
             raw_quote ''aapl'' (DateText 20240101) (NumText 100),
             raw_quote ''MSFT'' (DateText 20240101) (NumText 0),
             raw_quote ''AAPL'' (DateText 20240102) (NumText 110),
             raw_quote ''AAPL'' (DateText 20240103) (NumText 0)]\<rparr>"

definition repeated_day :: "raw_row frame" where
  "repeated_day = \<lparr>columns = expected_columns,
     rows = [raw_quote ''AAPL'' (DateText 20240101) (NumText 100),
             raw_quote ''AAPL'' (DateText 20240101) (NumText 101)]\<rparr>"

definition unparsed_date :: "raw_row frame" where
  "unparsed_date = \<lparr>columns = expected_columns,
     rows = [raw_quote ''AAPL'' (DateText 20240101) (NumText 100),
             raw_quote ''AAPL'' DateJunk (NumText 105),
             raw_quote ''AAPL'' (DateText 20240103) (NumText 110)]\<rparr>"

definition lowercase_labels :: "raw_row frame" where
  "lowercase_labels = \<lparr>columns = [''date'', ''openprice'', ''high'', ''low'', ''closeprice'', ''volume'', ''symbol''],
     rows = [raw_quote ''AAPL'' (DateText 20240101) (NumText 100)]\<rparr>"

definition no_volume :: "raw_row frame" where
  "no_volume = \<lparr>columns = [''Date'', ''OpenPrice'', ''High'', ''Low'', ''ClosePrice'', ''Symbol''],
     rows = [raw_quote ''AAPL'' (DateText 20240101) (NumText 100)]\<rparr>"

definition quote :: "string \<Rightarrow> iso_date \<Rightarrow> real option \<Rightarrow> float option \<Rightarrow> row" where
  "quote s d c ret = \<lparr>Date = d, OpenPrice = Some 1, High = Some 1, Low = Some 1, ClosePrice = c,
     Volume = Some 10, Symbol = s, DailyReturn = ret\<rparr>"

definition transformed_columns :: "string list" where
  "transformed_columns = expected_columns @ [''DailyReturn'']"

definition two_day_returns :: "row frame" where
  "two_day_returns = \<lparr>columns = transformed_columns,
     rows = [quote ''AAPL'' 20240101 (Some 100) None,
             quote ''AAPL'' 20240102 (Some 110) (Some (Finite (1 / 10)))]\<rparr>"

definition zero_then_up :: "raw_row frame" where
  "zero_then_up = \<lparr>columns = expected_columns,
     rows = [raw_quote ''AAPL'' (DateText 20240101) (NumText 0),
             raw_quote ''AAPL'' (DateText 20240102) (NumText 5),
             raw_quote ''AAPL'' (DateText 20240103) (NumText 6)]\<rparr>"

definition zero_then_up_returns :: "row frame" where
  "zero_then_up_returns = \<lparr>columns = transformed_columns,
     rows = [quote ''AAPL'' 20240101 (Some 0) None,
             quote ''AAPL'' 20240102 (Some 5) (Some PlusInf),
             quote ''AAPL'' 20240103 (Some 6) (Some (Finite (1 / 5)))]\<rparr>"

definition six_days :: "row frame" where
  "six_days = \<lparr>columns = transformed_columns,
     rows = [quote ''AAPL'' 20240101 (Some 5) None,
             quote ''AAPL'' 20240102 (Some 10) (Some (Finite 1)),
             quote ''AAPL'' 20240103 (Some 20) (Some (Finite 1)),
             quote ''AAPL'' 20240104 (Some 30) (Some (Finite (1 / 2))),
             quote ''AAPL'' 20240105 (Some 40) (Some (Finite (1 / 3))),
             quote ''AAPL'' 20240108 (Some 50) (Some (Finite (1 / 4)))]\<rparr>"

definition six_days_one_gap :: "row frame" where
  "six_days_one_gap = \<lparr>columns = transformed_columns,
     rows = [quote ''AAPL'' 20240101 (Some 5) None,
             quote ''AAPL'' 20240102 (Some 10) (Some (Finite 1)),
             quote ''AAPL'' 20240103 (Some 20) (Some (Finite 1)),
             quote ''AAPL'' 20240104 None (Some (Finite 0)),
             quote ''AAPL'' 20240105 (Some 40) (Some (Finite 1)),
             quote ''AAPL'' 20240108 (Some 50) (Some (Finite (1 / 4)))]\<rparr>"

definition returns_only :: "row frame" where
  "returns_only = \<lparr>columns = [''Symbol'', ''DailyReturn''],
     rows = [quote ''AAPL'' 20240101 (Some 100) None]\<rparr>"

text \<open>A run in which every write succeeds and the transformed file is there.\<close>

definition run_env :: "raw_row frame \<Rightarrow> environment" where
  "run_env df = \<lparr>extracted = df,
     saved_as = (\<lambda>prefix. Some (''dataset/'' @ prefix @ ''_20241219_110050.csv'')),
     files = [transformed_path \<mapsto> 120], warehouse = upsert_db, pads = True,
     ties = input_order\<rparr>"

section \<open>The merge is idempotent\<close>

lemma do_update_hit: "row_key r = row_key ex \<Longrightarrow> do_update ex (i, r) = (i, ex)"
  by (cases r, cases ex) (simp add: do_update_def row_key_def)

lemma do_update_miss: "row_key r \<noteq> row_key ex \<Longrightarrow> do_update ex (i, r) = (i, r)"
  by (simp add: do_update_def)

lemma do_update_cases:
  "do_update ex (i, r) = (if row_key r = row_key ex then (i, ex) else (i, r))"
  by (simp add: do_update_hit do_update_miss)

lemma table_keys_update: "table_keys (map (do_update ex) t) = table_keys t"
  by (induction t) (auto simp: table_keys_def do_update_cases)


lemma upsert_keys:
  "set (table_keys (snd (upsert ex (sq, t)))) = insert (row_key ex) (set (table_keys t))"
  by (auto simp: upsert_def table_keys_update) (auto simp: table_keys_def)

lemma upsert_distinct:
  "distinct (table_keys t) \<Longrightarrow> distinct (table_keys (snd (upsert ex (sq, t))))"
  by (auto simp: upsert_def table_keys_update) (auto simp: table_keys_def)

lemma key_in_table: "(i, r) \<in> set t \<Longrightarrow> row_key r \<in> set (table_keys t)"
  by (force simp: table_keys_def)

lemma upsert_holds: "holds_row (snd (upsert ex (sq, t))) ex"
proof (cases "row_key ex \<in> set (table_keys t)")
  case True
  then show ?thesis
    by (auto simp: holds_row_def upsert_def table_keys_update list_all_iff do_update_cases
        split: if_splits)
next
  case False
  then have "\<forall>(i, r)\<in>set t. row_key r \<noteq> row_key ex"
    by (auto dest: key_in_table)
  with False show ?thesis
    by (auto simp: holds_row_def upsert_def list_all_iff table_keys_def)
qed

lemma upsert_keeps:
  "holds_row t r \<Longrightarrow> row_key ex \<noteq> row_key r \<Longrightarrow> holds_row (snd (upsert ex (sq, t))) r"
  unfolding holds_row_def upsert_keys
  by (auto simp: upsert_def list_all_iff do_update_cases split: if_splits)

lemma upsert_fixed: "holds_row t ex \<Longrightarrow> snd (upsert ex (sq, t)) = t"
  unfolding holds_row_def
  by (auto simp: upsert_def list_all_iff do_update_cases intro!: map_idI)

lemma insert_select_distinct:
  "distinct (table_keys t) \<Longrightarrow> distinct (table_keys (snd (insert_select ps (sq, t))))"
proof (induction ps arbitrary: sq t)
  case Nil
  then show ?case by (simp add: insert_select_def)
next
  case (Cons p ps)
  obtain sq' t' where u: "upsert p (sq, t) = (sq', t')" by (cases "upsert p (sq, t)")
  from upsert_distinct [OF Cons.prems, of p sq] u have "distinct (table_keys t')" by simp
  from Cons.IH [OF this, of sq'] u show ?case by (simp add: insert_select_def)
qed

lemma insert_select_keeps:
  "holds_row t r \<Longrightarrow> row_key r \<notin> set (map row_key ps) \<Longrightarrow>
   holds_row (snd (insert_select ps (sq, t))) r"
proof (induction ps arbitrary: sq t)
  case Nil
  then show ?case by (simp add: insert_select_def)
next
  case (Cons p ps)
  obtain sq' t' where u: "upsert p (sq, t) = (sq', t')" by (cases "upsert p (sq, t)")
  from Cons.prems have "row_key p \<noteq> row_key r" by auto
  from upsert_keeps [OF Cons.prems(1) this, of sq] u have "holds_row t' r" by simp
  moreover from Cons.prems have "row_key r \<notin> set (map row_key ps)" by simp
  ultimately have "holds_row (snd (insert_select ps (sq', t'))) r" by (rule Cons.IH)
  with u show ?case by (simp add: insert_select_def)
qed

lemma insert_select_holds:
  "distinct (map row_key ps) \<Longrightarrow> r \<in> set ps \<Longrightarrow> holds_row (snd (insert_select ps (sq, t))) r"
proof (induction ps arbitrary: sq t)
  case Nil
  then show ?case by simp
next
  case (Cons p ps)
  obtain sq' t' where u: "upsert p (sq, t) = (sq', t')" by (cases "upsert p (sq, t)")
  show ?case
  proof (cases "r = p")
    case True
    from upsert_holds [of p sq t] u have "holds_row t' p" by simp
    moreover from Cons.prems(1) have "row_key p \<notin> set (map row_key ps)" by simp
    ultimately have "holds_row (snd (insert_select ps (sq', t'))) p"
      by (rule insert_select_keeps)
    with u True show ?thesis by (simp add: insert_select_def)
  next
    case False
    with Cons.prems have "r \<in> set ps" and "distinct (map row_key ps)" by auto
    from Cons.IH [OF this(2) this(1), of sq' t'] u show ?thesis
      by (simp add: insert_select_def)
  qed
qed

lemma insert_select_fixed:
  "\<forall>r\<in>set ps. holds_row t r \<Longrightarrow> snd (insert_select ps (sq, t)) = t"
proof (induction ps arbitrary: sq)
  case Nil
  then show ?case by (simp add: insert_select_def)
next
  case (Cons p ps)
  obtain sq' t' where u: "upsert p (sq, t) = (sq', t')" by (cases "upsert p (sq, t)")
  from Cons.prems have "holds_row t p" by simp
  from upsert_fixed [OF this, of sq] u have "t' = t" by simp
  moreover from Cons.prems have "\<forall>r\<in>set ps. holds_row t r" by simp
  from Cons.IH [OF this, of sq'] have "snd (insert_select ps (sq', t)) = t" .
  ultimately show ?case using u by (simp add: insert_select_def)
qed

lemma insert_select_twice:
  assumes "distinct (map row_key ps)"
  shows "snd (insert_select ps (sq', snd (insert_select ps (sq, t)))) = snd (insert_select ps (sq, t))"
  by (rule insert_select_fixed) (simp add: insert_select_holds [OF assms])

lemma move_stg: "stg (snd (move_data_to_edw db)) = stg db"
  by (simp add: move_data_to_edw_def Let_def split: prod.splits)

text \<open>
  Claim C1. Whatever the staging table holds, running \<^verbatim>\<open>move_data_to_edw\<close> twice leaves
  the enterprise table with the rows that running it once leaves, and an enterprise table
  without two rows of one (symbol, date) still has none after one run and after two.
  The sequence behind \<^verbatim>\<open>RecordID\<close> is no part of the table's rows.
\<close>

theorem move_data_to_edw_idempotent:
  assumes "distinct (table_keys (edw db))"
  shows "edw (snd (move_data_to_edw (snd (move_data_to_edw db)))) = edw (snd (move_data_to_edw db))
    \<and> distinct (table_keys (edw (snd (move_data_to_edw db))))
    \<and> distinct (table_keys (edw (snd (move_data_to_edw (snd (move_data_to_edw db))))))"
proof (cases "list_all row_checks (map snd (stg db)) \<and> distinct (map row_key (map snd (stg db)))")
  case False
  then have "snd (move_data_to_edw db) = db"
    by (auto simp: move_data_to_edw_def Let_def)
  with False assms show ?thesis by simp
next
  case True
  let ?ps = "map snd (stg db)"
  obtain sq t where 1: "insert_select ?ps (edw_seq db, edw db) = (sq, t)"
    by (cases "insert_select ?ps (edw_seq db, edw db)")
  with True have m1: "snd (move_data_to_edw db) = db\<lparr>edw := t, edw_seq := sq\<rparr>"
    by (simp add: move_data_to_edw_def Let_def)
  obtain sq2 t2 where 2: "insert_select ?ps (sq, t) = (sq2, t2)"
    by (cases "insert_select ?ps (sq, t)")
  with True have m2: "snd (move_data_to_edw (db\<lparr>edw := t, edw_seq := sq\<rparr>))
      = db\<lparr>edw := t2, edw_seq := sq2\<rparr>"
    by (simp add: move_data_to_edw_def Let_def)
  from True have d: "distinct (map row_key ?ps)" by simp
  from insert_select_twice [OF d, of sq "edw_seq db" "edw db"] 1 2 have "t2 = t" by simp
  moreover from insert_select_distinct [OF assms, of ?ps "edw_seq db"] 1
  have "distinct (table_keys t)" by simp
  ultimately show ?thesis using m1 m2 by simp
qed

theorem move_data_to_edw_idempotent_witness:
  "distinct (table_keys (edw upsert_db))
   \<and> edw (snd (move_data_to_edw (snd (move_data_to_edw upsert_db))))
       = edw (snd (move_data_to_edw upsert_db))
   \<and> distinct (table_keys (edw (snd (move_data_to_edw upsert_db))))
   \<and> edw (snd (move_data_to_edw upsert_db)) = [(7, aapl_staged), (9, msft_staged)]"
proof -
  have d: "distinct (table_keys (edw upsert_db))"
    by (simp add: upsert_db_def table_keys_def)
  have e: "edw (snd (move_data_to_edw upsert_db)) = [(7, aapl_staged), (9, msft_staged)]"
    by (simp add: move_data_to_edw_def upsert_db_def insert_select_def upsert_def
        table_keys_def row_key_def row_checks_def do_update_def
        aapl_staged_def aapl_stored_def msft_staged_def)
  from d e move_data_to_edw_idempotent [OF d] show ?thesis by simp
qed

section \<open>Loading the transformed file\<close>

text \<open>
  Claim C9. \<^verbatim>\<open>load_data_to_postgres\<close> raises \<^verbatim>\<open>FileNotFoundError\<close> exactly when the
  file at the path is missing or empty, and it returns exactly when the file is there
  with a positive size; what it returns is the database it was given, so no row reaches
  the staging table.
\<close>

theorem load_data_to_postgres_only_checks_file:
  "(load_data_to_postgres fs input_file db = Inl FileNotFoundError)
     = (fs input_file = None \<or> fs input_file = Some 0)
   \<and> (load_data_to_postgres fs input_file db = Inr db)
     = (\<exists>n. fs input_file = Some (Suc n))
   \<and> (\<forall>db'. load_data_to_postgres fs input_file db = Inr db' \<longrightarrow> db' = db)"
proof (cases "fs input_file")
  case None
  then show ?thesis by (simp add: load_data_to_postgres_def)
next
  case (Some n)
  then show ?thesis by (cases n) (simp_all add: load_data_to_postgres_def)
qed

theorem load_data_to_postgres_only_checks_file_witness:
  "load_data_to_postgres [transformed_path \<mapsto> 120] transformed_path upsert_db = Inr upsert_db
   \<and> load_data_to_postgres [transformed_path \<mapsto> 0] transformed_path upsert_db = Inl FileNotFoundError
   \<and> load_data_to_postgres Map.empty transformed_path upsert_db = Inl FileNotFoundError"
proof -
  have a: "[transformed_path \<mapsto> 120::nat] transformed_path = Some (Suc 119)" by simp
  have b: "[transformed_path \<mapsto> 0::nat] transformed_path = Some 0" by simp
  have c: "(Map.empty :: file_system) transformed_path = None" by simp
  from a load_data_to_postgres_only_checks_file
    [of "[transformed_path \<mapsto> 120]" transformed_path upsert_db]
  have 1: "load_data_to_postgres [transformed_path \<mapsto> 120] transformed_path upsert_db = Inr upsert_db"
    by blast
  from b load_data_to_postgres_only_checks_file
    [of "[transformed_path \<mapsto> 0]" transformed_path upsert_db]
  have 2: "load_data_to_postgres [transformed_path \<mapsto> 0] transformed_path upsert_db = Inl FileNotFoundError"
    by blast
  from c load_data_to_postgres_only_checks_file [of Map.empty transformed_path upsert_db]
  have 3: "load_data_to_postgres Map.empty transformed_path upsert_db = Inl FileNotFoundError"
    by blast
  from 1 2 3 show ?thesis by simp
qed

section \<open>Facts about the Normalizer\<close>

lemma to_datetime_Some:
  "DateJunk \<notin> set ds \<Longrightarrow> to_datetime ds = Some (map day_of ds)"
proof (induction ds)
  case Nil
  then show ?case by simp
next
  case (Cons d ds)
  then show ?case by (cases d) simp_all
qed

lemma to_datetime_None: "DateJunk \<in> set ds \<Longrightarrow> to_datetime ds = None"
proof (induction ds)
  case Nil
  then show ?case by simp
next
  case (Cons d ds)
  then show ?case by (cases d) auto
qed

lemma map2_standardize:
  "map2 standardize (map (day_of \<circ> raw_Date) rs) rs = map normalized rs"
  by (induction rs) (simp_all add: normalized_def)

lemma expected_all:
  "list_all (\<lambda>col. col \<in> set cols) expected_columns = (set expected_columns \<subseteq> set cols)"
  by (auto simp: list_all_iff)

lemma transform_data_rows:
  assumes "set expected_columns \<subseteq> set (columns df)" and "DateJunk \<notin> raw_Date ` set (rows df)"
  shows "rows (snd (transform_data pad tie df))
    = groupby_pct_change pad (sort_values tie (map normalized (rows df)))"
proof -
  from assms(2) have "to_datetime (map raw_Date (rows df)) = Some (map day_of (map raw_Date (rows df)))"
    by (intro to_datetime_Some) simp
  with assms(1) show ?thesis
    by (simp add: transform_data_def expected_all map2_standardize)
qed

lemma align_length: "length (align g rs) = length rs"
  by (induction rs arbitrary: g) (auto split: list.splits)

lemma align_Symbol: "map Symbol (align g rs) = map Symbol rs"
  by (induction rs arbitrary: g) (auto split: list.splits)

lemma align_Date: "map Date (align g rs) = map Date rs"
  by (induction rs arbitrary: g) (auto split: list.splits)

lemma align_filter:
  "length (filter (\<lambda>r. Symbol r = s) rs) \<le> length (g s) \<Longrightarrow>
   filter (\<lambda>r. Symbol r = s) (align g rs)
     = map2 (\<lambda>r v. r\<lparr>DailyReturn := v\<rparr>) (filter (\<lambda>r. Symbol r = s) rs) (g s)"
proof (induction rs arbitrary: g)
  case Nil
  then show ?case by simp
next
  case (Cons r rs)
  note IH = Cons.IH and prems = Cons.prems
  show ?case
  proof (cases "Symbol r = s")
    case True
    with prems obtain v vs where g: "g s = v # vs" by (cases "g s") auto
    with True prems have "length (filter (\<lambda>r. Symbol r = s) rs) \<le> length ((g(Symbol r := vs)) s)"
      by simp
    then have "filter (\<lambda>r. Symbol r = s) (align (g(Symbol r := vs)) rs)
      = map2 (\<lambda>r v. r\<lparr>DailyReturn := v\<rparr>) (filter (\<lambda>r. Symbol r = s) rs) ((g(Symbol r := vs)) s)"
      by (rule IH)
    with True g show ?thesis by simp
  next
    case False
    show ?thesis
    proof (cases "g (Symbol r)")
      case Nil
      from False prems have "length (filter (\<lambda>r. Symbol r = s) rs) \<le> length (g s)"
        by simp
      then have "filter (\<lambda>r. Symbol r = s) (align g rs)
        = map2 (\<lambda>r v. r\<lparr>DailyReturn := v\<rparr>) (filter (\<lambda>r. Symbol r = s) rs) (g s)"
        by (rule IH)
      with False Nil show ?thesis by simp
    next
      case (Cons v vs)
      from False prems have "length (filter (\<lambda>r. Symbol r = s) rs) \<le> length ((g(Symbol r := vs)) s)"
        by simp
      then have "filter (\<lambda>r. Symbol r = s) (align (g(Symbol r := vs)) rs)
        = map2 (\<lambda>r v. r\<lparr>DailyReturn := v\<rparr>) (filter (\<lambda>r. Symbol r = s) rs) ((g(Symbol r := vs)) s)"
        by (rule IH)
      with False Cons show ?thesis by simp
    qed
  qed
qed

lemma ffill_length: "length (ffill p xs) = length xs"
  by (induction p xs rule: ffill.induct) simp_all

lemma ffill_Some: "ffill p (map Some cs) = map Some cs"
  by (induction cs arbitrary: p) simp_all

lemma shift1_length: "length (shift1 xs) = length xs"
  by (simp add: shift1_def)

lemma pct_change_length: "length (pct_change pad xs) = length xs"
  by (simp add: pct_change_def Let_def ffill_length shift1_length)

lemma shift1_nth:
  "k < length xs \<Longrightarrow> shift1 xs ! k = (if k = 0 then None else xs ! (k - 1))"
  by (cases k) (auto simp: shift1_def nth_butlast)

lemma pct_change_Some_nth:
  assumes "k < length cs" and "0 \<notin> set (butlast cs)"
  shows "pct_change pad (map Some cs) ! k
    = (if k = 0 then None else Some (Finite (cs ! k / cs ! (k - 1) - 1)))"
proof -
  have "pct_change pad (map Some cs) = map2 change (map Some cs) (shift1 (map Some cs))"
    by (cases pad) (simp_all add: pct_change_def ffill_Some Let_def)
  with assms(1) have "pct_change pad (map Some cs) ! k = change (Some (cs ! k)) (shift1 (map Some cs) ! k)"
    by (simp add: shift1_length)
  also from assms(1) have "shift1 (map Some cs) ! k = (if k = 0 then None else Some (cs ! (k - 1)))"
    by (simp add: shift1_nth)
  also have "change (Some (cs ! k)) (if k = 0 then None else Some (cs ! (k - 1)))
      = (if k = 0 then None else Some (Finite (cs ! k / cs ! (k - 1) - 1)))"
  proof (cases "k = 0")
    case True
    then show ?thesis by simp
  next
    case False
    with assms(1) have "k - 1 < length (butlast cs)" by simp
    then have "butlast cs ! (k - 1) \<in> set (butlast cs)" by (rule nth_mem)
    moreover from \<open>k - 1 < length (butlast cs)\<close> have "butlast cs ! (k - 1) = cs ! (k - 1)"
      by (simp add: nth_butlast)
    ultimately have "cs ! (k - 1) \<noteq> 0" using assms(2) by metis
    with False show ?thesis by simp
  qed
  finally show ?thesis .
qed

lemma sort_values_length_set:
  "length (sort_values tie rs) = length rs" "set (sort_values tie rs) = set rs"
  by (simp_all add: sort_values_def)

lemma sorted_unique:
  assumes "sorted_wrt (<) (map f xs)" and "set ys = set xs" and "length ys = length xs"
    and "sorted (map f ys)"
  shows "ys = xs"
proof -
  from assms(1) have sx: "sorted (map f xs)" and dx: "distinct (map f xs)"
    by (simp_all add: strict_sorted_iff)
  from dx have "card (set (map f xs)) = length xs"
    using distinct_card [of "map f xs"] by simp
  with assms(2,3) have "card (set (map f ys)) = length (map f ys)" by simp
  then have dy: "distinct (map f ys)" by (rule card_distinct)
  from assms(2) have "set (map f ys) = set (map f xs)" by simp
  with sx dx assms(4) dy have eq: "map f ys = map f xs"
    by (intro sorted_distinct_set_unique)
  from dx have "inj_on f (set xs)" by (simp add: distinct_map)
  with assms(2) have "inj_on f (set ys \<union> set xs)" by simp
  with eq show ?thesis by (simp add: inj_on_map_eq_map)
qed

lemma sort_values_id:
  assumes "sorted_wrt (<) (map Date rs)"
  shows "sort_values tie rs = rs"
proof (rule sorted_unique [OF assms])
  show "set (sort_values tie rs) = set rs" by (simp add: sort_values_def)
  show "length (sort_values tie rs) = length rs" by (simp add: sort_values_def)
  show "sorted (map Date (sort_values tie rs))" by (simp add: sort_values_def)
qed

lemma filter_sort_values:
  "filter P (sort_values tie rs) = sort_values tie (filter P rs)"
  by (simp add: sort_values_def filter_sort)

lemma filter_sorted_rows:
  "filter (\<lambda>r. Symbol r = s) (sort_values tie (map normalized rs))
    = sort_values tie (map normalized (filter (\<lambda>r. str_upper (raw_Symbol r) = s) rs))"
  by (simp add: filter_sort_values filter_map comp_def normalized_def standardize_def)

lemma group_rows:
  assumes cols: "set expected_columns \<subseteq> set (columns df)"
    and dates: "DateJunk \<notin> raw_Date ` set (rows df)"
  shows "filter (\<lambda>r. Symbol r = s) (rows (snd (transform_data pad tie df)))
    = (let grp = sort_values tie (map normalized (filter (\<lambda>r. str_upper (raw_Symbol r) = s) (rows df)))
       in map2 (\<lambda>r v. r\<lparr>DailyReturn := v\<rparr>) grp (pct_change pad (map ClosePrice grp)))"
proof -
  let ?S = "sort_values tie (map normalized (rows df))"
  let ?G = "\<lambda>s. pct_change pad (map ClosePrice (filter (\<lambda>r. Symbol r = s) ?S))"
  have "length (filter (\<lambda>r. Symbol r = s) ?S) \<le> length (?G s)"
    by (simp add: pct_change_length)
  then have "filter (\<lambda>r. Symbol r = s) (align ?G ?S)
      = map2 (\<lambda>r v. r\<lparr>DailyReturn := v\<rparr>) (filter (\<lambda>r. Symbol r = s) ?S) (?G s)"
    by (rule align_filter)
  then show ?thesis
    unfolding transform_data_rows [OF cols dates] groupby_pct_change_def filter_sorted_rows Let_def .
qed

lemma align_keys: "map (\<lambda>r. (Symbol r, Date r)) (align g rs) = map (\<lambda>r. (Symbol r, Date r)) rs"
  by (induction rs arbitrary: g) (auto split: list.splits)

lemma count_by_key:
  "length (filter (\<lambda>r. Symbol r = s \<and> Date r = d) rs)
    = length (filter (\<lambda>k. k = (s, d)) (map (\<lambda>r. (Symbol r, Date r)) rs))"
  by (induction rs) auto

lemma upper_examples:
  "str_upper ''aapl'' = ''AAPL''" "str_upper ''AAPL'' = ''AAPL''" "str_upper ''MSFT'' = ''MSFT''"
  by code_simp+

lemmas transform_eval = transform_data_def sort_values_def expected_columns_def raw_quote_def
  standardize_def input_order_def
  upper_examples groupby_pct_change_def pct_change_def shift1_def

lemma lower_examples:
  "str_lower ''Date'' = ''date''" "str_lower ''OpenPrice'' = ''openprice''"
  "str_lower ''High'' = ''high''" "str_lower ''Low'' = ''low''"
  "str_lower ''ClosePrice'' = ''closeprice''" "str_lower ''Volume'' = ''volume''"
  "str_lower ''Symbol'' = ''symbol''" "str_lower ''DailyReturn'' = ''dailyreturn''"
  by code_simp+

section \<open>The schema check\<close>

text \<open>
  Claim C3, as the code has it. \<^verbatim>\<open>transform_data\<close> looks for the seven labels
  \<^verbatim>\<open>Date, OpenPrice, High, Low, ClosePrice, Volume, Symbol\<close> by their exact spelling. It
  returns the empty frame with the one error entry "Dataset missing required columns",
  which prints the columns found, exactly when one of these labels is not among the
  columns; nothing is raised.
\<close>

theorem transform_data_schema_check:
  "(transform_data pad tie df = ([(Error, MissingRequiredFound (columns df))], empty_frame))
     = (\<exists>col \<in> set expected_columns. col \<notin> set (columns df))"
proof (cases "list_all (\<lambda>col. col \<in> set (columns df)) expected_columns")
  case True
  then have "transform_data pad tie df \<noteq> ([(Error, MissingRequiredFound (columns df))], empty_frame)"
    by (cases "to_datetime (map raw_Date (rows df))") (simp_all add: transform_data_def)
  with True show ?thesis by (simp add: list_all_iff)
next
  case False
  then have "transform_data pad tie df = ([(Error, MissingRequiredFound (columns df))], empty_frame)"
    by (simp add: transform_data_def)
  with False show ?thesis by (simp add: list_all_iff)
qed

theorem transform_data_schema_check_witness:
  "transform_data True input_order no_volume
     = ([(Error, MissingRequiredFound [''Date'', ''OpenPrice'', ''High'', ''Low'', ''ClosePrice'', ''Symbol''])],
        empty_frame)
   \<and> ''Volume'' \<in> set expected_columns \<and> ''Volume'' \<notin> set (columns no_volume)
   \<and> transform_data True input_order two_symbols \<noteq> ([(Error, MissingRequiredFound (columns two_symbols))], empty_frame)"
proof -
  have a: "''Volume'' \<in> set expected_columns \<and> ''Volume'' \<notin> set (columns no_volume)"
    by (simp add: expected_columns_def no_volume_def)
  then have "\<exists>col \<in> set expected_columns. col \<notin> set (columns no_volume)" by blast
  with transform_data_schema_check [of True input_order no_volume]
  have b: "transform_data True input_order no_volume = ([(Error, MissingRequiredFound (columns no_volume))], empty_frame)"
    by blast
  have "\<not> (\<exists>col \<in> set expected_columns. col \<notin> set (columns two_symbols))"
    by (simp add: two_symbols_def)
  with transform_data_schema_check [of True input_order two_symbols]
  have c: "transform_data True input_order two_symbols \<noteq> ([(Error, MissingRequiredFound (columns two_symbols))], empty_frame)"
    by blast
  have d: "columns no_volume = [''Date'', ''OpenPrice'', ''High'', ''Low'', ''ClosePrice'', ''Symbol'']"
    by (simp add: no_volume_def)
  from a b c show ?thesis unfolding d by blast
qed

text \<open>
  The claim as stated fails on a batch whose labels are the expected ones in lower case:
  every required field is there up to case, and the batch is rejected; the entry logged
  lists the labels found, not the missing ones.
\<close>

theorem transform_data_case_insensitive_counterexample:
  "map str_lower expected_columns = columns lowercase_labels
   \<and> transform_data True input_order lowercase_labels
     = ([(Error, MissingRequiredFound
           [''date'', ''openprice'', ''high'', ''low'', ''closeprice'', ''volume'', ''symbol''])],
        empty_frame)"
proof -
  have "map str_lower expected_columns = columns lowercase_labels"
    by (simp add: expected_columns_def lowercase_labels_def lower_examples)
  moreover have "transform_data True input_order lowercase_labels
     = ([(Error, MissingRequiredFound
           [''date'', ''openprice'', ''high'', ''low'', ''closeprice'', ''volume'', ''symbol''])],
        empty_frame)"
    by (simp add: transform_data_def lowercase_labels_def expected_columns_def)
  ultimately show ?thesis by blast
qed

section \<open>Unparsable dates\<close>

text \<open>
  Claim C4, as the code has it. When one date cell of the batch does not parse,
  \<^verbatim>\<open>pd.to_datetime\<close> raises, the \<^verbatim>\<open>except\<close> branch logs one error and returns
  \<^verbatim>\<open>pd.DataFrame()\<close>: no row of the batch is returned and no count is reported.
\<close>

theorem transform_data_unparsable_date_aborts:
  assumes "DateJunk \<in> raw_Date ` set (rows df)"
  shows "snd (transform_data pad tie df) = empty_frame
    \<and> rows (snd (transform_data pad tie df)) = []
    \<and> fst (transform_data pad tie df)
      = [(Error, if set expected_columns \<subseteq> set (columns df) then ErrorTransforming
                 else MissingRequiredFound (columns df))]"
proof -
  from assms have "to_datetime (map raw_Date (rows df)) = None"
    by (intro to_datetime_None) simp
  then show ?thesis
    by (simp add: transform_data_def expected_all empty_frame_def)
qed

theorem transform_data_unparsable_date_aborts_witness:
  "DateJunk \<in> raw_Date ` set (rows unparsed_date)
   \<and> transform_data True input_order unparsed_date = ([(Error, ErrorTransforming)], empty_frame)"
proof -
  have junk: "DateJunk \<in> raw_Date ` set (rows unparsed_date)"
    by (simp add: unparsed_date_def raw_quote_def)
  have "set expected_columns \<subseteq> set (columns unparsed_date)"
    by (simp add: unparsed_date_def)
  with transform_data_unparsable_date_aborts [OF junk, of True input_order] junk show ?thesis
    by (simp add: prod_eq_iff)
qed

text \<open>
  The claim as stated fails on three rows of which the second has an unparsable date:
  the two parsable rows are not returned.
\<close>

theorem transform_data_drops_only_bad_row_counterexample:
  "map raw_Date (rows unparsed_date) = [DateText 20240101, DateJunk, DateText 20240103]
   \<and> rows (snd (transform_data True input_order unparsed_date)) = []
   \<and> fst (transform_data True input_order unparsed_date) = [(Error, ErrorTransforming)]
   \<and> rows (snd (transform_data False input_order unparsed_date)) = []
   \<and> fst (transform_data False input_order unparsed_date) = [(Error, ErrorTransforming)]"
  by (simp add: unparsed_date_def transform_data_def expected_columns_def raw_quote_def empty_frame_def)

section \<open>Daily returns\<close>

text \<open>
  Claim C5, as the code has it. Take a batch that has the expected columns and whose
  dates all parse, and a symbol whose rows are in strictly ascending date order in the
  batch, with close prices that are all numeric and, but for the last row's, not zero.
  Then the rows of that symbol in the result are its rows of the batch in the same
  order; the first has no daily return, and each later one has the return
  \<open>close / previous close - 1\<close>, the previous close being that of the row before it
  among the rows of the same symbol. This holds whether or not pandas forward-fills and
  whatever order its sort leaves among rows of equal date; the other symbols of the
  batch do not matter.
\<close>

theorem transform_data_daily_return:
  assumes cols: "set expected_columns \<subseteq> set (columns df)"
    and dates: "DateJunk \<notin> raw_Date ` set (rows df)"
    and closes: "map raw_ClosePrice (filter (\<lambda>r. str_upper (raw_Symbol r) = s) (rows df)) = map NumText cs"
    and nonzero: "0 \<notin> set (butlast cs)"
    and sorted: "sorted_wrt (<) (map (day_of \<circ> raw_Date) (filter (\<lambda>r. str_upper (raw_Symbol r) = s) (rows df)))"
  shows "let g_in = filter (\<lambda>r. str_upper (raw_Symbol r) = s) (rows df);
             g = filter (\<lambda>r. Symbol r = s) (rows (snd (transform_data pad tie df)))
         in map (\<lambda>r. DateText (Date r)) g = map raw_Date g_in
          \<and> map ClosePrice g = map Some cs
          \<and> (\<forall>k<length g. DailyReturn (g ! k)
                = (if k = 0 then None else Some (Finite (cs ! k / cs ! (k - 1) - 1))))"
proof -
  define g_in where "g_in = filter (\<lambda>r. str_upper (raw_Symbol r) = s) (rows df)"
  define g where "g = filter (\<lambda>r. Symbol r = s) (rows (snd (transform_data pad tie df)))"
  have sub: "set g_in \<subseteq> set (rows df)" by (auto simp: g_in_def)
  from sorted have "sorted_wrt (<) (map Date (map normalized g_in))"
    by (simp add: g_in_def comp_def normalized_def standardize_def)
  then have srt: "sort_values tie (map normalized g_in) = map normalized g_in"
    by (rule sort_values_id)
  have "map ClosePrice (map normalized g_in) = map to_numeric (map raw_ClosePrice g_in)"
    by (simp add: normalized_def standardize_def comp_def)
  also from closes have "\<dots> = map Some cs"
    by (simp add: g_in_def comp_def)
  finally have cl: "map ClosePrice (map normalized g_in) = map Some cs" .
  have len: "length cs = length g_in"
    using map_eq_imp_length_eq [OF closes] by (simp add: g_in_def)
  have g: "g = map2 (\<lambda>r v. r\<lparr>DailyReturn := v\<rparr>) (map normalized g_in) (pct_change pad (map Some cs))"
    using group_rows [OF cols dates, of s pad tie] srt cl
    by (simp add: g_def g_in_def Let_def)
  have lg: "length g = length g_in"
    by (simp add: g pct_change_length len)
  have nth: "g ! k = (normalized (g_in ! k))\<lparr>DailyReturn := pct_change pad (map Some cs) ! k\<rparr>"
    if "k < length g_in" for k
    using that by (simp add: g pct_change_length len)
  have part1: "map (\<lambda>r. DateText (Date r)) g = map raw_Date g_in"
  proof (rule nth_equalityI)
    show "length (map (\<lambda>r. DateText (Date r)) g) = length (map raw_Date g_in)"
      by (simp add: lg)
  next
    fix k assume "k < length (map (\<lambda>r. DateText (Date r)) g)"
    then have k: "k < length g_in" by (simp add: lg)
    then have "g_in ! k \<in> set (rows df)" using sub by (auto simp: subset_iff)
    with dates have "raw_Date (g_in ! k) \<noteq> DateJunk" by force
    then have "DateText (day_of (raw_Date (g_in ! k))) = raw_Date (g_in ! k)"
      by (cases "raw_Date (g_in ! k)") simp_all
    with k show "map (\<lambda>r. DateText (Date r)) g ! k = map raw_Date g_in ! k"
      by (simp add: lg nth normalized_def standardize_def)
  qed
  have part2: "map ClosePrice g = map Some cs"
  proof (rule nth_equalityI)
    show "length (map ClosePrice g) = length (map Some cs)" by (simp add: lg len)
  next
    fix k assume "k < length (map ClosePrice g)"
    then have k: "k < length g_in" by (simp add: lg)
    then have "ClosePrice (g ! k) = map ClosePrice (map normalized g_in) ! k"
      by (simp add: nth)
    also have "\<dots> = map Some cs ! k" unfolding cl by (rule refl)
    finally show "map ClosePrice g ! k = map Some cs ! k" using k by (simp add: lg)
  qed
  have part3: "DailyReturn (g ! k)
      = (if k = 0 then None else Some (Finite (cs ! k / cs ! (k - 1) - 1)))"
    if "k < length g" for k
  proof -
    from that have k: "k < length g_in" by (simp add: lg)
    then have "DailyReturn (g ! k) = pct_change pad (map Some cs) ! k"
      by (simp add: nth)
    also from k nonzero have "\<dots> = (if k = 0 then None else Some (Finite (cs ! k / cs ! (k - 1) - 1)))"
      by (intro pct_change_Some_nth) (simp_all add: len)
    finally show ?thesis .
  qed
  from part1 part2 part3 show ?thesis
    unfolding g_def g_in_def Let_def by blast
qed

theorem transform_data_daily_return_witness:
  "set expected_columns \<subseteq> set (columns mixed_quality)
   \<and> DateJunk \<notin> raw_Date ` set (rows mixed_quality)
   \<and> map raw_ClosePrice (filter (\<lambda>r. str_upper (raw_Symbol r) = ''AAPL'') (rows mixed_quality))
       = map NumText [100, 110, 0]
   \<and> 0 \<notin> set (butlast [100, 110, 0 :: real])
   \<and> sorted_wrt (<) (map (day_of \<circ> raw_Date)
         (filter (\<lambda>r. str_upper (raw_Symbol r) = ''AAPL'') (rows mixed_quality)))
   \<and> map (\<lambda>r. (Date r, ClosePrice r, DailyReturn r))
        (filter (\<lambda>r. Symbol r = ''AAPL'') (rows (snd (transform_data True dearer_first mixed_quality))))
      = [(20240101, Some 100, None), (20240102, Some 110, Some (Finite (1 / 10))),
         (20240103, Some 0, Some (Finite (- 1)))]"
proof -
  define g where "g = filter (\<lambda>r. Symbol r = ''AAPL'') (rows (snd (transform_data True dearer_first mixed_quality)))"
  have cols: "set expected_columns \<subseteq> set (columns mixed_quality)"
    by (simp add: mixed_quality_def)
  have dates: "DateJunk \<notin> raw_Date ` set (rows mixed_quality)"
    by (simp add: mixed_quality_def raw_quote_def)
  have closes: "map raw_ClosePrice (filter (\<lambda>r. str_upper (raw_Symbol r) = ''AAPL'') (rows mixed_quality))
       = map NumText [100, 110, 0]"
    by (simp add: mixed_quality_def raw_quote_def upper_examples)
  have nonzero: "0 \<notin> set (butlast [100, 110, 0 :: real])"
    by simp
  have sorted: "sorted_wrt (<) (map (day_of \<circ> raw_Date)
      (filter (\<lambda>r. str_upper (raw_Symbol r) = ''AAPL'') (rows mixed_quality)))"
    by (simp add: mixed_quality_def raw_quote_def upper_examples)
  have ds: "map raw_Date (filter (\<lambda>r. str_upper (raw_Symbol r) = ''AAPL'') (rows mixed_quality))
      = [DateText 20240101, DateText 20240102, DateText 20240103]"
    by (simp add: mixed_quality_def raw_quote_def upper_examples)
  from transform_data_daily_return [OF cols dates closes nonzero sorted, of True dearer_first]
  have d: "map (\<lambda>r. DateText (Date r)) g = [DateText 20240101, DateText 20240102, DateText 20240103]"
    and c: "map ClosePrice g = [Some 100, Some 110, Some 0]"
    and r: "\<forall>k<length g. DailyReturn (g ! k)
        = (if k = 0 then None else Some (Finite ([100, 110, 0] ! k / [100, 110, 0] ! (k - 1) - 1)))"
    unfolding Let_def g_def [symmetric] ds by simp_all
  have "length g = 3" using arg_cong [OF c, of length] by simp
  then obtain x y z where g3: "g = [x, y, z]"
    by (auto simp: length_Suc_conv numeral_3_eq_3)
  from r [rule_format, of 0] r [rule_format, of 1] r [rule_format, of 2]
  have "DailyReturn x = None" "DailyReturn y = Some (Finite (1 / 10))"
    "DailyReturn z = Some (Finite (- 1))"
    unfolding g3 by simp_all
  with d c have "map (\<lambda>r. (Date r, ClosePrice r, DailyReturn r)) g
      = [(20240101, Some 100, None), (20240102, Some 110, Some (Finite (1 / 10))),
         (20240103, Some 0, Some (Finite (- 1)))]"
    unfolding g3 by simp
  with cols dates closes nonzero sorted show ?thesis
    unfolding g_def by blast
qed

text \<open>
  The claim as stated fails when a close of the symbol is missing or zero: after a first
  row whose close does not parse the second row has no return either, and a close of
  zero followed by a close of zero gives 0/0, which is missing. It also fails when two
  rows of the symbol have the same date: the sort may leave the second before the first,
  and then the first row of the batch has a return and the second has none.
\<close>

theorem transform_data_daily_return_counterexample:
  "set expected_columns \<subseteq> set (columns unparsed_close)
   \<and> sorted (map (day_of \<circ> raw_Date) (filter (\<lambda>r. str_upper (raw_Symbol r) = ''AAPL'') (rows unparsed_close)))
   \<and> sorted (map (day_of \<circ> raw_Date) (filter (\<lambda>r. str_upper (raw_Symbol r) = ''MSFT'') (rows unparsed_close)))
   \<and> map (\<lambda>r. (Date r, ClosePrice r, DailyReturn r))
        (filter (\<lambda>r. Symbol r = ''AAPL'') (rows (snd (transform_data True input_order unparsed_close))))
      = [(20240101, None, None), (20240102, Some 110, None)]
   \<and> map (\<lambda>r. (Date r, ClosePrice r, DailyReturn r))
        (filter (\<lambda>r. Symbol r = ''AAPL'') (rows (snd (transform_data False input_order unparsed_close))))
      = [(20240101, None, None), (20240102, Some 110, None)]
   \<and> map (\<lambda>r. (Date r, ClosePrice r, DailyReturn r))
        (filter (\<lambda>r. Symbol r = ''MSFT'') (rows (snd (transform_data True input_order unparsed_close))))
      = [(20240101, Some 0, None), (20240102, Some 0, None)]
   \<and> map (\<lambda>r. (Date r, ClosePrice r, DailyReturn r))
        (filter (\<lambda>r. Symbol r = ''MSFT'') (rows (snd (transform_data False input_order unparsed_close))))
      = [(20240101, Some 0, None), (20240102, Some 0, None)]
   \<and> map (\<lambda>r. (raw_Date r, raw_ClosePrice r)) (rows repeated_day)
      = [(DateText 20240101, NumText 100), (DateText 20240101, NumText 101)]
   \<and> map (\<lambda>r. (Date r, ClosePrice r, DailyReturn r))
        (rows (snd (transform_data True dearer_first repeated_day)))
      = [(20240101, Some 101, None), (20240101, Some 100, Some (Finite (100 / 101 - 1)))]"
  by (simp add: unparsed_close_def repeated_day_def transform_eval dearer_first_def)

section \<open>Rows of one symbol and day\<close>

text \<open>
  Claim C7, as the code has it. \<^verbatim>\<open>transform_data\<close> removes no row: for a batch that has
  the expected columns and whose dates all parse, the result has as many rows as the
  batch, and as many rows of each (symbol, date) as the batch has.
\<close>

theorem transform_data_keeps_every_row:
  assumes cols: "set expected_columns \<subseteq> set (columns df)"
    and dates: "DateJunk \<notin> raw_Date ` set (rows df)"
  shows "length (rows (snd (transform_data pad tie df))) = length (rows df)
    \<and> length (filter (\<lambda>r. Symbol r = s \<and> Date r = d) (rows (snd (transform_data pad tie df))))
      = length (filter (\<lambda>r. str_upper (raw_Symbol r) = s \<and> raw_Date r = DateText d) (rows df))"
proof -
  let ?S = "sort_values tie (map normalized (rows df))"
  have rows: "rows (snd (transform_data pad tie df)) = groupby_pct_change pad ?S"
    by (rule transform_data_rows [OF cols dates])
  have "length (filter (\<lambda>r. Symbol r = s \<and> Date r = d) (groupby_pct_change pad ?S))
      = length (filter (\<lambda>r. Symbol r = s \<and> Date r = d) ?S)"
    unfolding count_by_key groupby_pct_change_def align_keys ..
  also have "\<dots> = length (filter (\<lambda>r. Symbol r = s \<and> Date r = d) (map normalized (rows df)))"
    by (simp add: filter_sort_values sort_values_length_set)
  also have "\<dots> = length (filter (\<lambda>r. str_upper (raw_Symbol r) = s \<and> day_of (raw_Date r) = d) (rows df))"
    by (simp add: filter_map comp_def normalized_def standardize_def)
  also have "filter (\<lambda>r. str_upper (raw_Symbol r) = s \<and> day_of (raw_Date r) = d) (rows df)
      = filter (\<lambda>r. str_upper (raw_Symbol r) = s \<and> raw_Date r = DateText d) (rows df)"
  proof (rule filter_cong [OF refl])
    fix r assume "r \<in> set (rows df)"
    with dates have "raw_Date r \<noteq> DateJunk" by force
    then show "(str_upper (raw_Symbol r) = s \<and> day_of (raw_Date r) = d)
        = (str_upper (raw_Symbol r) = s \<and> raw_Date r = DateText d)"
      by (cases "raw_Date r") auto
  qed
  finally show ?thesis
    by (simp add: rows groupby_pct_change_def align_length sort_values_length_set)
qed

theorem transform_data_keeps_every_row_witness:
  "set expected_columns \<subseteq> set (columns repeated_day)
   \<and> DateJunk \<notin> raw_Date ` set (rows repeated_day)
   \<and> length (rows (snd (transform_data True input_order repeated_day))) = 2
   \<and> length (filter (\<lambda>r. Symbol r = ''AAPL'' \<and> Date r = 20240101) (rows (snd (transform_data True input_order repeated_day)))) = 2"
proof -
  have cols: "set expected_columns \<subseteq> set (columns repeated_day)"
    by (simp add: repeated_day_def)
  have dates: "DateJunk \<notin> raw_Date ` set (rows repeated_day)"
    by (simp add: repeated_day_def raw_quote_def)
  from transform_data_keeps_every_row [OF cols dates, of True input_order "''AAPL''" 20240101] cols dates
  show ?thesis
    by (simp add: repeated_day_def raw_quote_def upper_examples)
qed

text \<open>
  The claim as stated fails on two rows of one symbol and day: both are in the result.
\<close>

theorem transform_data_one_per_key_counterexample:
  "map (\<lambda>r. (Symbol r, Date r)) (rows (snd (transform_data True input_order repeated_day)))
     = [(''AAPL'', 20240101), (''AAPL'', 20240101)]
   \<and> set (map ClosePrice (rows (snd (transform_data True input_order repeated_day)))) = {Some 100, Some 101}
   \<and> map (\<lambda>r. (Symbol r, Date r)) (rows (snd (transform_data False input_order repeated_day)))
     = [(''AAPL'', 20240101), (''AAPL'', 20240101)]
   \<and> set (map ClosePrice (rows (snd (transform_data False input_order repeated_day)))) = {Some 100, Some 101}
   \<and> map (\<lambda>r. (Symbol r, Date r)) (rows (snd (transform_data True dearer_first repeated_day)))
     = [(''AAPL'', 20240101), (''AAPL'', 20240101)]
   \<and> set (map ClosePrice (rows (snd (transform_data True dearer_first repeated_day)))) = {Some 100, Some 101}"
  by (simp add: repeated_day_def transform_eval dearer_first_def insert_commute)

section \<open>Facts about the Aggregator\<close>

lemma left_join_per_group:
  "s \<in> set ks \<Longrightarrow> left_join (map (\<lambda>k. (k, f k)) ks) s = f s"
  by (induction ks) (auto simp: left_join_def)

lemma summarize_eq: "summarize rs = map (summary_of rs) (group_keys rs)"
  unfolding summarize_def per_group_def Let_def
  by (simp add: comp_def left_join_per_group summary_of_def Let_def)


lemma group_keys_set: "set (group_keys rs) = Symbol ` set rs"
  by (simp add: group_keys_def)

lemma group_keys_distinct: "distinct (group_keys rs)"
  by (simp add: group_keys_def)

lemma filter_eq_single: "distinct ks \<Longrightarrow> s \<in> set ks \<Longrightarrow> filter (\<lambda>k. k = s) ks = [s]"
  by (induction ks) (auto simp: filter_empty_conv)

lemma symbol_summary_of: "symbol (summary_of rs k) = k"
  by (simp add: summary_of_def Let_def)

lemma summary_for_symbol:
  assumes "s \<in> Symbol ` set rs"
  shows "filter (\<lambda>m. symbol m = s) (summarize rs) = [summary_of rs s]"
proof -
  have "filter (\<lambda>m. symbol m = s) (summarize rs)
      = map (summary_of rs) (filter (\<lambda>k. k = s) (group_keys rs))"
    by (simp add: summarize_eq filter_map comp_def symbol_summary_of)
  also from assms have "filter (\<lambda>k. k = s) (group_keys rs) = [s]"
    by (intro filter_eq_single) (simp_all add: group_keys_distinct group_keys_set)
  finally show ?thesis by simp
qed

lemma aggregate_data_rows:
  assumes "required_columns \<subseteq> set (map str_lower (columns df))"
  shows "rows (snd (snd (aggregate_data df))) = summarize (map filled (rows df))"
proof -
  from assms have "required_columns - set (map str_lower (columns df)) = {}" by blast
  then show ?thesis
    by (simp add: aggregate_data_def Let_def filled_def [abs_def])
qed

lemma group_of_filled: "group_of (map filled rs) s = map filled (group_of rs s)"
  by (simp add: group_of_def filter_map comp_def filled_def)

lemma Symbol_filled: "Symbol ` set (map filled rs) = Symbol ` set rs"
  by (auto simp: filled_def image_iff)

lemma DailyReturn_filled: "DailyReturn (filled r) = Some (filled_value r)"
  by (cases "DailyReturn r") (simp_all add: filled_def filled_value_def)

lemma ClosePrice_filled: "ClosePrice (filled r) = ClosePrice r"
  by (simp add: filled_def)

lemma Date_filled: "Date (filled r) = Date r"
  by (simp add: filled_def)

lemma numeric_Some: "numeric (map Some xs) = xs"
  by (induction xs) simp_all

lemma present_Some: "present (map Some ys) = ys"
  by (induction ys) simp_all

lemma infinite_filled_value:
  "(PlusInf \<in> set (map filled_value g) \<or> MinusInf \<in> set (map filled_value g))
    = (\<exists>r \<in> set g. infinite_return r)"
proof -
  have "(filled_value r = PlusInf \<or> filled_value r = MinusInf) = infinite_return r" for r
    by (cases "DailyReturn r") (auto simp: filled_value_def infinite_return_def)
  then show ?thesis by (auto simp: image_iff) metis+
qed

lemma finite_filled_value:
  "\<not> (\<exists>r \<in> set g. infinite_return r) \<Longrightarrow> finite_part (map filled_value g) = map return_or_zero g"
proof (induction g)
  case Nil
  then show ?case by simp
next
  case (Cons r g)
  then have "\<not> infinite_return r" by simp
  then have "finite_part (filled_value r # ys) = return_or_zero r # finite_part ys" for ys
    by (cases "DailyReturn r"; cases "the (DailyReturn r)")
      (simp_all add: filled_value_def return_or_zero_def infinite_return_def)
  with Cons show ?case by simp
qed

lemma agg_std_filled:
  "agg_std (map Some (map filled_value g))
    = (if length g < 2 \<or> (\<exists>r \<in> set g. infinite_return r) then None
       else Some (sample_std (map return_or_zero g)))"
proof (cases "\<exists>r \<in> set g. infinite_return r")
  case True
  with infinite_filled_value [of g] show ?thesis
    unfolding agg_std_def present_Some Let_def by auto
next
  case False
  with infinite_filled_value [of g] finite_filled_value [OF False] show ?thesis
    unfolding agg_std_def present_Some Let_def by auto
qed

lemma aggregate_summary:
  assumes "required_columns \<subseteq> set (map str_lower (columns df))" and "s \<in> Symbol ` set (rows df)"
  shows "filter (\<lambda>m. symbol m = s) (rows (snd (snd (aggregate_data df))))
    = [summary_of (map filled (rows df)) s]"
  unfolding aggregate_data_rows [OF assms(1)]
  by (rule summary_for_symbol) (simp add: Symbol_filled assms(2) del: set_map)

lemma numeric_the: "None \<notin> set xs \<Longrightarrow> numeric xs = map the xs"
proof (induction xs)
  case Nil
  then show ?case by simp
next
  case (Cons x xs)
  then show ?case by (cases x) simp_all
qed

lemma last_rolling_mean:
  "xs \<noteq> [] \<Longrightarrow> last (rolling_mean w xs) = window_mean w xs"
proof -
  assume "xs \<noteq> []"
  then have n: "0 < length xs" by simp
  then have "[0..<length xs] \<noteq> []" by simp
  then have "last (rolling_mean w xs) = window_mean w (take (Suc (last [0..<length xs])) xs)"
    unfolding rolling_mean_def by (simp add: last_map)
  also from n have "last [0..<length xs] = length xs - 1"
    by (cases "length xs") simp_all
  also from n have "take (Suc (length xs - 1)) xs = xs" by simp
  finally show ?thesis .
qed

lemma list_all_present: "list_all (\<lambda>x. x \<noteq> None) (map f xs) = (None \<notin> f ` set xs)"
  by (induction xs) auto

lemma window_mean_closes: "window_mean w (map ClosePrice g) = last_rows_mean w g"
proof -
  define lastw where "lastw = drop (length g - w) g"
  have win: "drop (length (map ClosePrice g) - w) (map ClosePrice g) = map ClosePrice lastw"
    by (simp add: lastw_def drop_map)
  have all: "list_all (\<lambda>x. x \<noteq> None) (map ClosePrice lastw) = (None \<notin> ClosePrice ` set lastw)"
    by (rule list_all_present)
  show ?thesis
  proof (cases "w \<le> length g \<and> None \<notin> ClosePrice ` set lastw")
    case True
    then have "numeric (map ClosePrice lastw) = map the (map ClosePrice lastw)"
      by (intro numeric_the) simp
    then have "sum_list (numeric (map ClosePrice lastw)) = sum_list (map (\<lambda>r. the (ClosePrice r)) lastw)"
      by (simp add: comp_def)
    with True show ?thesis
      unfolding window_mean_def last_rows_mean_def Let_def win all lastw_def [symmetric]
      by simp
  next
    case False
    then show ?thesis
      unfolding window_mean_def last_rows_mean_def Let_def win all lastw_def [symmetric]
      by auto
  qed
qed

lemma moving_avg_eq:
  assumes "0 < w"
  shows "moving_avg w g = last_rows_mean w g"
proof (cases "w \<le> length g")
  case False
  then show ?thesis by (simp add: moving_avg_def last_rows_mean_def Let_def)
next
  case True
  with assms have ne: "map ClosePrice g \<noteq> []" by auto
  from True show ?thesis
    unfolding moving_avg_def last_rolling_mean [OF ne] window_mean_closes by simp
qed

lemma last_rows_mean_filled: "last_rows_mean w (map filled g) = last_rows_mean w g"
  by (simp add: last_rows_mean_def Let_def drop_map comp_def ClosePrice_filled image_image)

lemma sorted_last_rows:
  assumes "sorted (map Date g)"
  shows "\<forall>a \<in> set (take (length g - w) g). \<forall>b \<in> set (drop (length g - w) g). Date a \<le> Date b"
proof -
  have "map Date g = map Date (take (length g - w) g) @ map Date (drop (length g - w) g)"
    by (simp flip: map_append)
  with assms have "sorted (map Date (take (length g - w) g) @ map Date (drop (length g - w) g))"
    by simp
  then have "\<forall>x \<in> set (map Date (take (length g - w) g)). \<forall>y \<in> set (map Date (drop (length g - w) g)). x \<le> y"
    unfolding sorted_append by blast
  then show ?thesis by simp
qed

lemma required_transformed: "required_columns \<subseteq> set (map str_lower transformed_columns)"
  by (simp add: required_columns_def transformed_columns_def expected_columns_def lower_examples)

lemma zero_keys: "group_keys (map filled (rows zero_then_up_returns)) = [''AAPL'']"
  by (simp add: group_keys_def zero_then_up_returns_def quote_def filled_def)

lemma sample_std_two: "sample_std [0, 1 / 10] = sqrt (1 / 200)"
  by (simp add: sample_std_def mean_def power2_eq_square)

lemma aapl_keys: "group_keys (map filled (rows two_day_returns)) = [''AAPL'']"
  by (simp add: group_keys_def two_day_returns_def quote_def filled_def)

lemma gap_keys: "group_keys (map filled (rows six_days_one_gap)) = [''AAPL'']"
  by (simp add: group_keys_def six_days_one_gap_def quote_def filled_def)

lemma lower_symbol_only:
  "map str_lower [''Symbol'', ''DailyReturn''] = [''symbol'', ''dailyreturn'']"
  by (simp add: lower_examples)

section \<open>Volatility\<close>

text \<open>
  Claim C2, as the code has it. \<^verbatim>\<open>aggregate_data\<close> replaces every missing
  \<^verbatim>\<open>dailyreturn\<close> by 0 before it groups; an infinite return, which \<^verbatim>\<open>pct_change\<close>
  gives after a close of zero, stays. For a frame with the required columns and a symbol
  with rows in it, the result has one row for the symbol. Its volatility is undefined
  exactly when the symbol has fewer than two rows or one of its returns is infinite, and
  otherwise it is the sample standard deviation of the symbol's returns with missing
  read as 0.
\<close>

theorem aggregate_data_volatility:
  assumes "required_columns \<subseteq> set (map str_lower (columns df))" and "s \<in> Symbol ` set (rows df)"
  shows "let g = filter (\<lambda>r. Symbol r = s) (rows df) in
     map volatilityindex (filter (\<lambda>m. symbol m = s) (rows (snd (snd (aggregate_data df)))))
       = [if length g < 2 \<or> (\<exists>r \<in> set g. infinite_return r) then None
          else Some (sample_std (map return_or_zero g))]"
proof -
  have "volatilityindex (summary_of (map filled (rows df)) s)
      = agg_std (map Some (map filled_value (group_of (rows df) s)))"
    by (simp add: summary_of_def Let_def group_of_filled DailyReturn_filled comp_def)
  then show ?thesis
    unfolding aggregate_summary [OF assms] agg_std_filled Let_def group_of_def
    by simp
qed

theorem aggregate_data_volatility_witness:
  "required_columns \<subseteq> set (map str_lower (columns two_day_returns))
   \<and> ''AAPL'' \<in> Symbol ` set (rows two_day_returns)
   \<and> map volatilityindex
        (filter (\<lambda>m. symbol m = ''AAPL'') (rows (snd (snd (aggregate_data two_day_returns)))))
      = [Some (sample_std [0, 1 / 10])]
   \<and> required_columns \<subseteq> set (map str_lower (columns zero_then_up_returns))
   \<and> ''AAPL'' \<in> Symbol ` set (rows zero_then_up_returns)
   \<and> rows (snd (transform_data True input_order zero_then_up)) = rows zero_then_up_returns
   \<and> map DailyReturn (rows zero_then_up_returns) = [None, Some PlusInf, Some (Finite (1 / 5))]
   \<and> map volatilityindex
        (filter (\<lambda>m. symbol m = ''AAPL'') (rows (snd (snd (aggregate_data zero_then_up_returns)))))
      = [None]"
proof -
  have a: "required_columns \<subseteq> set (map str_lower (columns two_day_returns))"
    using required_transformed by (simp add: two_day_returns_def)
  have b: "''AAPL'' \<in> Symbol ` set (rows two_day_returns)"
    by (simp add: two_day_returns_def quote_def)
  have c: "required_columns \<subseteq> set (map str_lower (columns zero_then_up_returns))"
    using required_transformed by (simp add: zero_then_up_returns_def)
  have d: "''AAPL'' \<in> Symbol ` set (rows zero_then_up_returns)"
    by (simp add: zero_then_up_returns_def quote_def)
  have e: "rows (snd (transform_data True input_order zero_then_up)) = rows zero_then_up_returns"
    by (simp add: zero_then_up_def zero_then_up_returns_def quote_def transform_eval)
  have f: "map DailyReturn (rows zero_then_up_returns) = [None, Some PlusInf, Some (Finite (1 / 5))]"
    by (simp add: zero_then_up_returns_def quote_def)
  from aggregate_data_volatility [OF a b]
  have 1: "map volatilityindex
        (filter (\<lambda>m. symbol m = ''AAPL'') (rows (snd (snd (aggregate_data two_day_returns)))))
      = [Some (sample_std [0, 1 / 10])]"
    by (simp add: two_day_returns_def quote_def return_or_zero_def infinite_return_def Let_def)
  from aggregate_data_volatility [OF c d]
  have 2: "map volatilityindex
        (filter (\<lambda>m. symbol m = ''AAPL'') (rows (snd (snd (aggregate_data zero_then_up_returns)))))
      = [None]"
    by (simp add: zero_then_up_returns_def quote_def infinite_return_def Let_def)
  from a b c d e f 1 2 show ?thesis by blast
qed

text \<open>
  The claim as stated fails on its own scenario: the two rows of AAPL with closes 100
  and 110 have the returns missing and 0.1, one numeric return, and the volatility is
  the standard deviation of 0 and 0.1, not undefined.
\<close>

theorem aggregate_data_volatility_counterexample:
  "map (\<lambda>r. (Symbol r, Date r, ClosePrice r, DailyReturn r)) (rows two_day_returns)
     = [(''AAPL'', 20240101, Some 100, None), (''AAPL'', 20240102, Some 110, Some (Finite (1 / 10)))]
   \<and> map (\<lambda>m. (symbol m, dailyreturn m, volatilityindex m))
        (rows (snd (snd (aggregate_data two_day_returns))))
     = [(''AAPL'', Some (Finite (1 / 20)), Some (sqrt (1 / 200)))]"
proof -
  have a: "required_columns \<subseteq> set (map str_lower (columns two_day_returns))"
    using required_transformed by (simp add: two_day_returns_def)
  have "map (\<lambda>m. (symbol m, dailyreturn m, volatilityindex m))
        (rows (snd (snd (aggregate_data two_day_returns))))
     = [(''AAPL'', Some (Finite (1 / 20)), Some (sample_std [0, 1 / 10]))]"
    unfolding aggregate_data_rows [OF a] summarize_eq aapl_keys
    by (simp add: summary_of_def group_of_def two_day_returns_def quote_def filled_def
        agg_mean_float_def agg_std_def mean_def Let_def)
  then show ?thesis
    unfolding sample_std_two by (simp add: two_day_returns_def quote_def)
qed

section \<open>Moving averages\<close>

text \<open>
  Claim C6, as the code has it. For a frame with the required columns and a symbol whose
  rows are in date order, \<^verbatim>\<open>movingavg5day\<close> (\<^verbatim>\<open>movingavg10day\<close>) is the mean of the
  close prices of the last 5 (10) rows of the symbol when the symbol has at least 5 (10)
  rows and none of these closes is missing, and undefined otherwise; the last rows are
  the latest in date.
\<close>

theorem aggregate_data_moving_averages:
  assumes "required_columns \<subseteq> set (map str_lower (columns df))" and "s \<in> Symbol ` set (rows df)"
    and "sorted (map Date (filter (\<lambda>r. Symbol r = s) (rows df)))"
  shows "let g = filter (\<lambda>r. Symbol r = s) (rows df) in
     map (\<lambda>m. (movingavg5day m, movingavg10day m))
         (filter (\<lambda>m. symbol m = s) (rows (snd (snd (aggregate_data df)))))
       = [(last_rows_mean 5 g, last_rows_mean 10 g)]
     \<and> (\<forall>w. \<forall>a \<in> set (take (length g - w) g). \<forall>b \<in> set (drop (length g - w) g). Date a \<le> Date b)"
proof -
  define g where "g = filter (\<lambda>r. Symbol r = s) (rows df)"
  have grp: "group_of (map filled (rows df)) s = map filled g"
    by (simp add: group_of_filled) (simp add: group_of_def g_def)
  have "movingavg5day (summary_of (map filled (rows df)) s) = last_rows_mean 5 g"
    "movingavg10day (summary_of (map filled (rows df)) s) = last_rows_mean 10 g"
    unfolding summary_of_def Let_def grp
    by (simp_all add: moving_avg_eq last_rows_mean_filled)
  then have 1: "map (\<lambda>m. (movingavg5day m, movingavg10day m))
         (filter (\<lambda>m. symbol m = s) (rows (snd (snd (aggregate_data df)))))
       = [(last_rows_mean 5 g, last_rows_mean 10 g)]"
    unfolding aggregate_summary [OF assms(1,2)] by simp
  from assms(3) have "sorted (map Date g)" unfolding g_def .
  then have 3: "\<forall>w. \<forall>a \<in> set (take (length g - w) g). \<forall>b \<in> set (drop (length g - w) g). Date a \<le> Date b"
    using sorted_last_rows by blast
  show ?thesis
    unfolding Let_def g_def [symmetric] using 1 3 by (rule conjI)
qed

theorem aggregate_data_moving_averages_witness:
  "required_columns \<subseteq> set (map str_lower (columns six_days))
   \<and> ''AAPL'' \<in> Symbol ` set (rows six_days)
   \<and> sorted (map Date (filter (\<lambda>r. Symbol r = ''AAPL'') (rows six_days)))
   \<and> map (\<lambda>m. (movingavg5day m, movingavg10day m))
        (filter (\<lambda>m. symbol m = ''AAPL'') (rows (snd (snd (aggregate_data six_days)))))
      = [(Some 30, None)]"
proof -
  have a: "required_columns \<subseteq> set (map str_lower (columns six_days))"
    using required_transformed by (simp add: six_days_def)
  have b: "''AAPL'' \<in> Symbol ` set (rows six_days)"
    by (simp add: six_days_def quote_def)
  have c: "sorted (map Date (filter (\<lambda>r. Symbol r = ''AAPL'') (rows six_days)))"
    by (simp add: six_days_def quote_def)
  have d: "last_rows_mean 5 (filter (\<lambda>r. Symbol r = ''AAPL'') (rows six_days)) = Some 30"
    "last_rows_mean 10 (filter (\<lambda>r. Symbol r = ''AAPL'') (rows six_days)) = None"
    by (simp_all add: last_rows_mean_def six_days_def quote_def)
  from aggregate_data_moving_averages [OF a b c] have
    "map (\<lambda>m. (movingavg5day m, movingavg10day m))
        (filter (\<lambda>m. symbol m = ''AAPL'') (rows (snd (snd (aggregate_data six_days)))))
      = [(last_rows_mean 5 (filter (\<lambda>r. Symbol r = ''AAPL'') (rows six_days)),
          last_rows_mean 10 (filter (\<lambda>r. Symbol r = ''AAPL'') (rows six_days)))]"
    unfolding Let_def by (rule conjunct1)
  with a b c show ?thesis unfolding d by blast
qed

text \<open>
  The claim as stated fails on a symbol with six rows, five of them with a numeric
  close, whose missing close is among the last five rows: the average is undefined.
\<close>

theorem aggregate_data_moving_averages_counterexample:
  "map Symbol (rows six_days_one_gap) = [''AAPL'', ''AAPL'', ''AAPL'', ''AAPL'', ''AAPL'', ''AAPL'']
   \<and> map ClosePrice (rows six_days_one_gap) = [Some 5, Some 10, Some 20, None, Some 40, Some 50]
   \<and> map (\<lambda>m. (symbol m, movingavg5day m))
        (rows (snd (snd (aggregate_data six_days_one_gap))))
     = [(''AAPL'', None)]"
proof -
  have a: "required_columns \<subseteq> set (map str_lower (columns six_days_one_gap))"
    using required_transformed by (simp add: six_days_one_gap_def)
  have "map (\<lambda>m. (symbol m, movingavg5day m))
        (rows (snd (snd (aggregate_data six_days_one_gap))))
     = [(''AAPL'', None)]"
    unfolding aggregate_data_rows [OF a] summarize_eq gap_keys
    by (simp add: summary_of_def group_of_def moving_avg_eq last_rows_mean_def
        six_days_one_gap_def quote_def filled_def Let_def)
  then show ?thesis
    by (simp add: six_days_one_gap_def quote_def)
qed

section \<open>The caller's frame after aggregation\<close>

text \<open>
  Claim C10, as the code has it. After a call of \<^verbatim>\<open>aggregate_data\<close> the labels of the
  caller's frame are lowercased. When the five required labels are then all present,
  every missing \<^verbatim>\<open>dailyreturn\<close> of the frame has become 0; when one is absent the
  \<^verbatim>\<open>ValueError\<close> is raised before the fill and the rows are as they were.
\<close>

theorem aggregate_data_frame_effect:
  "columns (fst (snd (aggregate_data df))) = map str_lower (columns df)
   \<and> rows (fst (snd (aggregate_data df)))
     = (if required_columns \<subseteq> set (map str_lower (columns df))
        then map (\<lambda>r. r\<lparr>DailyReturn :=
                 (case DailyReturn r of None \<Rightarrow> Some (Finite 0) | Some v \<Rightarrow> Some v)\<rparr>) (rows df)
        else rows df)"
proof (cases "required_columns \<subseteq> set (map str_lower (columns df))")
  case True
  then have empty: "required_columns - set (map str_lower (columns df)) = {}" by blast
  have fill: "fillna 0 v = (case v of None \<Rightarrow> Some (Finite 0) | Some x \<Rightarrow> Some x)" for v
    by (cases v) simp_all
  from empty True show ?thesis
    by (simp add: aggregate_data_def Let_def fill)
next
  case False
  then have "required_columns - set (map str_lower (columns df)) \<noteq> {}" by blast
  with False show ?thesis
    by (simp add: aggregate_data_def Let_def)
qed

theorem aggregate_data_frame_effect_witness:
  "columns (fst (snd (aggregate_data two_day_returns)))
     = [''date'', ''openprice'', ''high'', ''low'', ''closeprice'', ''volume'', ''symbol'', ''dailyreturn'']
   \<and> map DailyReturn (rows two_day_returns) = [None, Some (Finite (1 / 10))]
   \<and> map DailyReturn (rows (fst (snd (aggregate_data two_day_returns))))
      = [Some (Finite 0), Some (Finite (1 / 10))]"
proof -
  have a: "required_columns \<subseteq> set (map str_lower (columns two_day_returns))"
    using required_transformed by (simp add: two_day_returns_def)
  from aggregate_data_frame_effect [of two_day_returns] a
  have "columns (fst (snd (aggregate_data two_day_returns))) = map str_lower (columns two_day_returns)"
    and "rows (fst (snd (aggregate_data two_day_returns)))
      = map (\<lambda>r. r\<lparr>DailyReturn :=
               (case DailyReturn r of None \<Rightarrow> Some (Finite 0) | Some v \<Rightarrow> Some v)\<rparr>) (rows two_day_returns)"
    by simp_all
  then show ?thesis
    by (simp add: two_day_returns_def transformed_columns_def expected_columns_def lower_examples
        quote_def)
qed

text \<open>
  The claim as stated fails on a frame with the columns Symbol and DailyReturn only: its
  labels are lowercased and its missing return stays missing.
\<close>

theorem aggregate_data_fills_after_any_call_counterexample:
  "map DailyReturn (rows returns_only) = [None]
   \<and> columns (fst (snd (aggregate_data returns_only))) = [''symbol'', ''dailyreturn'']
   \<and> map DailyReturn (rows (fst (snd (aggregate_data returns_only)))) = [None]
   \<and> snd (snd (aggregate_data returns_only)) = empty_frame"
proof -
  have "required_columns - set (map str_lower (columns returns_only)) \<noteq> {}"
  proof -
    have "''date'' \<in> required_columns - set (map str_lower (columns returns_only))"
      by (simp add: required_columns_def returns_only_def lower_examples)
    then show ?thesis by blast
  qed
  then show ?thesis
    by (simp add: aggregate_data_def Let_def) (simp add: returns_only_def lower_examples quote_def)
qed

section \<open>The driver stops after an empty stage\<close>

lemma Call_not_logged: "Call a \<notin> set (logged l)"
  by (auto simp: logged_def)

lemma no_volume_rejected: "snd (transform_data True input_order no_volume) = empty_frame"
  by (simp add: transform_data_def no_volume_def expected_columns_def)

lemma two_symbols_transformed: "\<not> frame_empty (snd (transform_data True input_order two_symbols))"
proof -
  have cols: "set expected_columns \<subseteq> set (columns two_symbols)"
    by (simp add: two_symbols_def)
  have dates: "DateJunk \<notin> raw_Date ` set (rows two_symbols)"
    by (simp add: two_symbols_def raw_quote_def)
  have "length (rows (snd (transform_data True input_order two_symbols))) = length (rows two_symbols)"
    unfolding transform_data_rows [OF cols dates] groupby_pct_change_def align_length
    by (simp add: sort_values_length_set)
  then have "rows (snd (transform_data True input_order two_symbols)) \<noteq> []"
    by (auto simp: two_symbols_def)
  moreover have "columns (snd (transform_data True input_order two_symbols)) \<noteq> []"
    by (simp add: transform_data_def two_symbols_def raw_quote_def expected_columns_def)
  ultimately show ?thesis by (simp add: frame_empty_def)
qed

lemma main_full_run:
  "set after_transform \<subseteq> set (trace (main (run_env two_symbols)))
   \<and> outcome (main (run_env two_symbols)) = Returned"
proof -
  obtain lg df where t: "transform_data True input_order two_symbols = (lg, df)"
    by (cases "transform_data True input_order two_symbols")
  with two_symbols_transformed have ne: "\<not> frame_empty df" by simp
  have ext: "\<not> frame_empty two_symbols"
    by (simp add: frame_empty_def two_symbols_def expected_columns_def)
  obtain lm db' where m: "move_data_to_edw upsert_db = (lm, db')"
    by (cases "move_data_to_edw upsert_db")
  obtain la df' agg where a: "aggregate_data df = (la, df', agg)"
    by (cases "aggregate_data df") auto
  have cols: "set expected_columns \<subseteq> set (columns two_symbols)"
    by (simp add: two_symbols_def)
  have dates: "DateJunk \<notin> raw_Date ` set (rows two_symbols)"
    by (simp add: two_symbols_def raw_quote_def)
  have "columns df = expected_columns @ [''DailyReturn'']"
    using t by (simp add: transform_data_def two_symbols_def raw_quote_def expected_columns_def
        split: if_splits) auto
  then have req: "required_columns \<subseteq> set (map str_lower (columns df))"
    using required_transformed by (simp add: transformed_columns_def)
  from ne have "rows df \<noteq> []" by (simp add: frame_empty_def)
  then have "set (group_keys (map filled (rows df))) \<noteq> {}"
    unfolding group_keys_set by simp
  then have "summarize (map filled (rows df)) \<noteq> []"
    unfolding summarize_eq by auto
  with aggregate_data_rows [OF req] a have "\<not> frame_empty agg"
    using req by (auto simp: frame_empty_def aggregate_data_def Let_def summary_columns_def)
  with ne ext t m a show ?thesis
    by (simp add: main_def main_load_def main_aggregate_def run_env_def Let_def
        load_data_to_postgres_def after_transform_def transformed_path_def)
qed

text \<open>
  Claim C8. In every run of \<^verbatim>\<open>main\<close> in which the extraction or the transformation
  yields an empty frame, none of the calls after the transformation stage is made (the
  transformed file is not saved, \<^verbatim>\<open>load_data_to_postgres\<close>, \<^verbatim>\<open>move_data_to_edw\<close> and
  \<^verbatim>\<open>aggregate_data\<close> are not called, no aggregated file is saved), the warehouse is as
  it was, and \<^verbatim>\<open>main\<close> returns after logging the error that names the stage:
  "Extraction failed" (then the transformation is not called either) or
  "Transformation failed".
\<close>

theorem main_stops_after_empty_stage:
  assumes "frame_empty (extracted env)
    \<or> frame_empty (snd (transform_data (pads env) (ties env) (extracted env)))"
  shows "set after_transform \<inter> set (trace (main env)) = {}
    \<and> final_db (main env) = warehouse env
    \<and> outcome (main env) = Returned
    \<and> (if frame_empty (extracted env)
        then Call TransformData \<notin> set (trace (main env))
          \<and> Call (SaveWithTimestamp ''extracted_stock_data'') \<notin> set (trace (main env))
          \<and> Logged Error (Text ''Extraction failed. ETL process terminated.'') \<in> set (trace (main env))
        else Logged Error (Text ''Transformation failed. ETL process terminated.'') \<in> set (trace (main env)))"
proof (cases "frame_empty (extracted env)")
  case True
  then show ?thesis
    by (simp add: main_def Let_def after_transform_def)
next
  case False
  with assms have e: "frame_empty (snd (transform_data (pads env) (ties env) (extracted env)))" by simp
  obtain lg df where t: "transform_data (pads env) (ties env) (extracted env) = (lg, df)"
    by (cases "transform_data (pads env) (ties env) (extracted env)")
  with e have "frame_empty df" by simp
  with False t show ?thesis
    by (simp add: main_def Let_def after_transform_def Call_not_logged)
qed

theorem main_stops_after_empty_stage_witness:
  "\<not> frame_empty (extracted (run_env no_volume))
   \<and> frame_empty (snd (transform_data (pads (run_env no_volume)) (ties (run_env no_volume)) (extracted (run_env no_volume))))
   \<and> set after_transform \<inter> set (trace (main (run_env no_volume))) = {}
   \<and> final_db (main (run_env no_volume)) = upsert_db
   \<and> outcome (main (run_env no_volume)) = Returned
   \<and> Logged Error (Text ''Transformation failed. ETL process terminated.'')
       \<in> set (trace (main (run_env no_volume)))
   \<and> frame_empty (extracted (run_env empty_frame))
   \<and> set after_transform \<inter> set (trace (main (run_env empty_frame))) = {}
   \<and> Call TransformData \<notin> set (trace (main (run_env empty_frame)))
   \<and> Logged Error (Text ''Extraction failed. ETL process terminated.'')
       \<in> set (trace (main (run_env empty_frame)))"
proof -
  have a: "\<not> frame_empty (extracted (run_env no_volume))"
    by (simp add: run_env_def no_volume_def frame_empty_def)
  have b: "frame_empty (snd (transform_data (pads (run_env no_volume)) (ties (run_env no_volume)) (extracted (run_env no_volume))))"
    by (simp add: run_env_def no_volume_rejected frame_empty_def empty_frame_def)
  have c: "frame_empty (extracted (run_env empty_frame))"
    by (simp add: run_env_def frame_empty_def empty_frame_def)
  have w: "warehouse (run_env no_volume) = upsert_db"
    by (simp add: run_env_def)
  from b have "frame_empty (extracted (run_env no_volume))
      \<or> frame_empty (snd (transform_data (pads (run_env no_volume)) (ties (run_env no_volume)) (extracted (run_env no_volume))))" ..
  note 1 = main_stops_after_empty_stage [OF this]
  from c have "frame_empty (extracted (run_env empty_frame))
      \<or> frame_empty (snd (transform_data (pads (run_env empty_frame)) (ties (run_env empty_frame)) (extracted (run_env empty_frame))))" ..
  note 2 = main_stops_after_empty_stage [OF this]
  from 1 2 a b c w show ?thesis by simp
qed

end
